theory Spec2Isabelle
  imports Complex_Main "HOL-Library.Multiset"
begin

section \<open>Timestamp alignment of multi-stream recordings\<close>

text \<open>
  The development follows \<^verbatim>\<open>aind_ephys_rig_qc/temporal_alignment.py\<close>. NumPy arrays and
  the columns of the event table are lists, \<^verbatim>\<open>int64\<close> arithmetic is arithmetic on \<^typ>\<open>int\<close>
  with the wrap-around written out, and every exception the source can raise is a value of
  \<open>py_error\<close>. Floating-point values that are compared with a threshold are \<^verbatim>\<open>float64\<close>
  numbers with their rounding; the anchor times handed to the remapper and the contents
  of the timestamp files, which are only moved around, are \<^typ>\<open>real\<close>. The files of a session are a map from paths to arrays. Reading the
  session from disk, figures and the PDF report are left out; the functions imported from
  \<^verbatim>\<open>harp.clock\<close> and \<^verbatim>\<open>scipy.stats\<close> are parameters of the functions that call them.
\<close>

subsection \<open>Errors and NumPy helpers\<close>

datatype py_error =
  IndexError | AttributeError | ValueError | AssertionError
  | FileNotFoundError | UnboundLocalError | OverflowError | OtherError

definition i64 :: "int \<Rightarrow> int" where
  \<comment> \<open>the value an \<^verbatim>\<open>int64\<close> operation stores: two's complement wrap-around\<close>
  "i64 x = (x + 2 ^ 63) mod 2 ^ 64 - 2 ^ 63"

fun np_diff :: "int list \<Rightarrow> int list" where
  "np_diff (x # y # zs) = i64 (y - x) # np_diff (y # zs)"
| "np_diff _ = []"

definition where_ne_1 :: "int list \<Rightarrow> nat list" where
  \<comment> \<open>\<^verbatim>\<open>np.where(sample_intervals != 1)[0]\<close>\<close>
  "where_ne_1 ds = filter (\<lambda>i. ds ! i \<noteq> 1) [0..<length ds]"

fun np_argmax :: "int list \<Rightarrow> nat" where
  \<comment> \<open>index of the first maximum\<close>
  "np_argmax [] = 0"
| "np_argmax [x] = 0"
| "np_argmax (x # xs) = (let j = np_argmax xs in if xs ! j \<le> x then 0 else Suc j)"

definition np_delete :: "'a list \<Rightarrow> nat \<Rightarrow> 'a list" where
  \<comment> \<open>\<^verbatim>\<open>np.delete(a, i, axis=0)\<close> for an index in range\<close>
  "np_delete xs i = take i xs @ drop (Suc i) xs"

subsection \<open>Floating-point numbers\<close>

text \<open>
  Where the source compares a floating-point result with a threshold, the arithmetic is
  that of IEEE 754 binary64: every operation returns the exact result rounded to the
  nearest number with 53 significant bits, ties to the even one, with gradual underflow
  below \<open>2\<^sup>-\<^sup>1\<^sup>0\<^sup>2\<^sup>2\<close> and overflow to an infinity from \<open>2\<^sup>1\<^sup>0\<^sup>2\<^sup>4\<close>. A finite number is the real
  number it stands for; the sign of zero is not kept, a zero divisor counts as \<open>+0.0\<close>.
  NumPy warns and goes on where Python would raise \<^verbatim>\<open>ZeroDivisionError\<close>.
\<close>

datatype float64 = Finite real | PInf | NInf | NaN

fun binade :: "nat \<Rightarrow> real \<Rightarrow> int" where
  \<comment> \<open>the exponent \<open>e\<close> with \<open>2\<^sup>e \<le> x < 2\<^sup>e\<^sup>+\<^sup>1\<close>, searched for in at most \<open>n\<close> steps\<close>
  "binade 0 x = 0"
| "binade (Suc n) x =
     (if 2 \<le> x then binade n (x / 2) + 1
      else if x < 1 then binade n (2 * x) - 1
      else 0)"

definition round_half_even :: "real \<Rightarrow> int" where
  "round_half_even y =
     (let f = \<lfloor>y\<rfloor>; r = y - of_int f
      in if r < 1 / 2 then f
         else if 1 / 2 < r then f + 1
         else if even f then f else f + 1)"

definition round_to_float64 :: "real \<Rightarrow> float64" where
  \<comment> \<open>the spacing of the float64 numbers around \<open>x\<close> is \<open>2\<^sup>e\<^sup>-\<^sup>5\<^sup>2\<close>, with \<open>e\<close> not below \<open>-1022\<close>\<close>
  "round_to_float64 x =
     (let e = max (binade 1100 \<bar>x\<bar>) (- 1022);
          y = (if 52 \<le> e
               then of_int (round_half_even (x / 2 ^ nat (e - 52))) * 2 ^ nat (e - 52)
               else of_int (round_half_even (x * 2 ^ nat (52 - e))) / 2 ^ nat (52 - e))
      in if 2 ^ 1024 \<le> y then PInf
         else if y \<le> - (2 ^ 1024) then NInf
         else Finite y)"

fun f64_neg :: "float64 \<Rightarrow> float64" where
  "f64_neg (Finite a) = Finite (- a)"
| "f64_neg PInf = NInf"
| "f64_neg NInf = PInf"
| "f64_neg NaN = NaN"

fun f64_add :: "float64 \<Rightarrow> float64 \<Rightarrow> float64" where
  "f64_add (Finite a) (Finite b) = round_to_float64 (a + b)"
| "f64_add NaN _ = NaN"
| "f64_add _ NaN = NaN"
| "f64_add PInf NInf = NaN"
| "f64_add NInf PInf = NaN"
| "f64_add PInf _ = PInf"
| "f64_add NInf _ = NInf"
| "f64_add _ PInf = PInf"
| "f64_add _ NInf = NInf"

definition f64_sub :: "float64 \<Rightarrow> float64 \<Rightarrow> float64" where
  "f64_sub a b = f64_add a (f64_neg b)"

definition f64_sign :: "float64 \<Rightarrow> int" where
  "f64_sign a = (case a of Finite x \<Rightarrow> (if x < 0 then - 1 else 1) | PInf \<Rightarrow> 1
                 | NInf \<Rightarrow> - 1 | NaN \<Rightarrow> 1)"

definition f64_inf :: "int \<Rightarrow> float64" where
  "f64_inf sign = (if sign < 0 then NInf else PInf)"

fun f64_mul :: "float64 \<Rightarrow> float64 \<Rightarrow> float64" where
  "f64_mul (Finite a) (Finite b) = round_to_float64 (a * b)"
| "f64_mul NaN _ = NaN"
| "f64_mul _ NaN = NaN"
| "f64_mul (Finite a) b = (if a = 0 then NaN else f64_inf (f64_sign (Finite a) * f64_sign b))"
| "f64_mul a (Finite b) = (if b = 0 then NaN else f64_inf (f64_sign a * f64_sign (Finite b)))"
| "f64_mul a b = f64_inf (f64_sign a * f64_sign b)"

fun f64_div :: "float64 \<Rightarrow> float64 \<Rightarrow> float64" where
  "f64_div (Finite a) (Finite b) =
     (if b = 0 then (if a = 0 then NaN else f64_inf (f64_sign (Finite a)))
      else round_to_float64 (a / b))"
| "f64_div NaN _ = NaN"
| "f64_div _ NaN = NaN"
| "f64_div (Finite a) _ = Finite 0"
| "f64_div a (Finite b) = f64_inf (f64_sign a * f64_sign (Finite b))"
| "f64_div _ _ = NaN"

fun f64_abs :: "float64 \<Rightarrow> float64" where
  "f64_abs (Finite a) = Finite \<bar>a\<bar>"
| "f64_abs NaN = NaN"
| "f64_abs _ = PInf"

fun f64_lt :: "float64 \<Rightarrow> float64 \<Rightarrow> bool" where
  \<comment> \<open>\<^verbatim>\<open>a < b\<close>: false as soon as one side is NaN\<close>
  "f64_lt (Finite a) (Finite b) = (a < b)"
| "f64_lt NaN _ = False"
| "f64_lt _ NaN = False"
| "f64_lt _ NInf = False"
| "f64_lt PInf _ = False"
| "f64_lt _ _ = True"

definition f64_gt :: "float64 \<Rightarrow> float64 \<Rightarrow> bool" where
  "f64_gt a b = f64_lt b a"

definition f64_le :: "float64 \<Rightarrow> float64 \<Rightarrow> bool" where
  "f64_le a b = (f64_lt a b \<or> (a = b \<and> a \<noteq> NaN))"

definition float_literal :: "real \<Rightarrow> float64" where
  \<comment> \<open>a decimal literal of the source, read as the nearest float64\<close>
  "float_literal x = round_to_float64 x"

definition float_of_int :: "int \<Rightarrow> float64" where
  \<comment> \<open>the conversion of an \<^verbatim>\<open>int64\<close> or a Python int to float64\<close>
  "float_of_int n = round_to_float64 (real_of_int n)"

subsection \<open>Discontinuity detector: \<^verbatim>\<open>clean_up_sample_chunks\<close>\<close>

datatype message =
  FoundDiscontinuities nat
  | MoreThanThree
  | CanBeRemoved
  | CannotBeRemoved "real option"
  | FirstChunkNotAtBeginning

definition chunk_starts :: "nat list \<Rightarrow> nat list" where
  \<comment> \<open>\<^verbatim>\<open>np.concatenate((np.array([0]), discontinuities + 1))\<close>\<close>
  "chunk_starts discontinuities = 0 # map Suc discontinuities"

definition sample_ranges_of :: "int list \<Rightarrow> nat list \<Rightarrow> (int \<times> int) list" where
  \<comment> \<open>the loop over \<^verbatim>\<open>dis_ind\<close>: first and last counter value of every chunk\<close>
  "sample_ranges_of sample_number d =
     map (\<lambda>dis_ind.
            if dis_ind = length d - 1
            then (sample_number ! (d ! dis_ind), last sample_number)
            else (sample_number ! (d ! dis_ind), sample_number ! (d ! (dis_ind + 1) - 1)))
         [0..<length d]"

definition no_overlap :: "int \<Rightarrow> int \<Rightarrow> int \<times> int \<Rightarrow> bool" where
  "no_overlap major_min major_max r =
     (i64 (i64 (fst r - major_min) * i64 (fst r - major_max)) > 0
      \<and> i64 (i64 (snd r - major_min) * i64 (snd r - major_max)) > 0)"

definition overlap_perc :: "int \<Rightarrow> int \<Rightarrow> real option" where
  \<comment> \<open>\<^verbatim>\<open>(1 - len(main_range) / (major_max - major_min)) * 100\<close> with
      \<^verbatim>\<open>main_range = np.arange(major_min, major_max)\<close>; \<open>None\<close> is the NaN of 0/0\<close>
  "overlap_perc major_min major_max =
     (let len_main_range = (if major_min < major_max then major_max - major_min else 0);
          denom = i64 (major_max - major_min)
      in if denom = 0 then None
         else Some ((1 - real_of_int len_main_range / real_of_int denom) * 100))"

definition first_chunk_check ::
  "int list \<Rightarrow> bool \<Rightarrow> (int \<times> int) list \<Rightarrow> message list
     \<Rightarrow> py_error + (bool \<times> (int \<times> int) list \<times> message list)" where
  \<comment> \<open>\<^verbatim>\<open>if residual_ranges[0][0] != sample_number[0]\<close> and the return that follows it\<close>
  "first_chunk_check sample_number realign residual_ranges msgs =
     (case residual_ranges of
        [] \<Rightarrow> Inl IndexError
      | r # _ \<Rightarrow>
          (case sample_number of
             [] \<Rightarrow> Inl IndexError
           | s0 # _ \<Rightarrow>
               if fst r \<noteq> s0
               then Inr (False, residual_ranges, msgs @ [FirstChunkNotAtBeginning])
               else Inr (realign, residual_ranges, msgs)))"

definition discontinuities_of :: "int list \<Rightarrow> nat list" where
  \<comment> \<open>\<^verbatim>\<open>np.where(np.diff(sample_number) != 1)[0]\<close>\<close>
  "discontinuities_of sample_number = where_ne_1 (np_diff sample_number)"

definition sample_ranges :: "int list \<Rightarrow> (int \<times> int) list" where
  "sample_ranges sample_number =
     sample_ranges_of sample_number (chunk_starts (discontinuities_of sample_number))"

definition major_ind :: "int list \<Rightarrow> nat" where
  \<comment> \<open>\<^verbatim>\<open>np.argmax(sample_ranges[:, 1] - sample_ranges[:, 0])\<close>\<close>
  "major_ind sample_number =
     np_argmax (map (\<lambda>r. i64 (snd r - fst r)) (sample_ranges sample_number))"

definition major_min :: "int list \<Rightarrow> int" where
  "major_min sample_number = fst (sample_ranges sample_number ! major_ind sample_number)"

definition major_max :: "int list \<Rightarrow> int" where
  "major_max sample_number = snd (sample_ranges sample_number ! major_ind sample_number)"

definition residual_ranges_of :: "int list \<Rightarrow> (int \<times> int) list" where
  \<comment> \<open>\<^verbatim>\<open>np.delete(sample_ranges, major_ind, axis=0)\<close>\<close>
  "residual_ranges_of sample_number =
     np_delete (sample_ranges sample_number) (major_ind sample_number)"

definition clean_up_sample_chunks ::
  "int list \<Rightarrow> py_error + (bool \<times> (int \<times> int) list \<times> message list)" where
  "clean_up_sample_chunks sample_number =
     (let discontinuities = discontinuities_of sample_number in
      if length discontinuities = 0 then Inr (True, [], [])
      else
        let msgs = [FoundDiscontinuities (length discontinuities)] in
        if length discontinuities \<ge> 3
        then first_chunk_check sample_number False [] (msgs @ [MoreThanThree])
        else
          let residual_ranges = residual_ranges_of sample_number;
              no_overlaps =
                map (no_overlap (major_min sample_number) (major_max sample_number))
                  residual_ranges
          in if list_all id no_overlaps
             then first_chunk_check sample_number True residual_ranges (msgs @ [CanBeRemoved])
             else if list_ex id no_overlaps
             then Inl AttributeError
             else first_chunk_check sample_number True residual_ranges
                    (msgs @ [CannotBeRemoved
                       (overlap_perc (major_min sample_number) (major_max sample_number))]))"

text \<open>
  In the source the final test \<^verbatim>\<open>residual_ranges[0][0] != sample_number[0]\<close> stands after the
  \<^verbatim>\<open>if len(discontinuities) >= 3: ... else: ...\<close> statement, so it is reached on both
  branches; on the first one \<^verbatim>\<open>residual_ranges\<close> is still the empty Python list. In the
  \<^verbatim>\<open>else\<close> branch of the overlap test the loop body calls \<^verbatim>\<open>main_range.delete\<close>, which a
  NumPy array does not have, whenever \<^verbatim>\<open>no_overlaps[res_ind]\<close> holds for some residual chunk.
\<close>

definition counter_span_small :: "int list \<Rightarrow> bool" where
  \<comment> \<open>any two counter values differ by at most 3037000499, the largest number whose
      square is below \<open>2\<^sup>6\<^sup>3\<close>: no \<^verbatim>\<open>int64\<close> difference or product of differences in
      \<^verbatim>\<open>clean_up_sample_chunks\<close> wraps around\<close>
  "counter_span_small sample_number =
     (\<forall>x \<in> set sample_number. \<forall>y \<in> set sample_number. \<bar>x - y\<bar> \<le> 3037000499)"

definition strictly_inside :: "int \<Rightarrow> int \<Rightarrow> int \<Rightarrow> bool" where
  "strictly_inside lo hi x = (lo < x \<and> x < hi)"

definition removable_as_specified :: "int \<Rightarrow> int \<Rightarrow> int \<times> int \<Rightarrow> bool" where
  \<comment> \<open>the specification's wording: neither bound of the residual range falls strictly
      inside the main range\<close>
  "removable_as_specified major_min' major_max' r =
     (\<not> strictly_inside major_min' major_max' (fst r)
      \<and> \<not> strictly_inside major_min' major_max' (snd r))"

subsection \<open>Events, streams and files\<close>

text \<open>
  One row of the event table of a recording, and the metadata and sample counter of one
  continuous stream. Files are \<^verbatim>\<open>.npy\<close> arrays, found under a path given by its components.
\<close>

record event =
  ev_stream_name :: string
  ev_processor_id :: int
  ev_line :: int
  ev_state :: int
  ev_sample_number :: int
  ev_timestamp :: real

record stream =
  stream_name :: string
  source_node_id :: int
  sample_rate :: real
  sample_numbers :: "int list"

record recording =
  rec_directory :: "string list"
  rec_events :: "event list"
  rec_continuous :: "stream list"

type_synonym path = "string list"
type_synonym files = "path \<rightharpoonup> real list"

fun contains :: "string \<Rightarrow> string \<Rightarrow> bool" where
  \<comment> \<open>Python's \<^verbatim>\<open>sub in s\<close> on strings\<close>
  "contains sub [] = (sub = [])"
| "contains sub (c # cs) = (take (length sub) (c # cs) = sub \<or> contains sub cs)"

definition endswith :: "string \<Rightarrow> string \<Rightarrow> bool" where
  "endswith s suf = (length suf \<le> length s \<and> drop (length s - length suf) s = suf)"

definition np_save :: "files \<Rightarrow> path \<Rightarrow> real list \<Rightarrow> files" where
  \<comment> \<open>\<^verbatim>\<open>np.save\<close> appends \<^verbatim>\<open>.npy\<close> to a file name that does not end with it\<close>
  "np_save fs file arr =
     (case rev file of
        [] \<Rightarrow> fs(file \<mapsto> arr)
      | fname # dir \<Rightarrow>
          fs(rev dir @ [if endswith fname ''.npy'' then fname else fname @ ''.npy''] \<mapsto> arr))"

subsection \<open>Archival: \<^verbatim>\<open>archive_and_replace_original_timestamps\<close>\<close>

definition archive_and_replace_original_timestamps ::
  "files \<Rightarrow> path \<Rightarrow> real list \<Rightarrow> string \<Rightarrow> string \<Rightarrow> py_error + files" where
  "archive_and_replace_original_timestamps fs directory new_timestamps
       timestamp_filename archive_filename =
     (if fs (directory @ [archive_filename]) = None
      then \<comment> \<open>rename the original timestamps file\<close>
        (case fs (directory @ [timestamp_filename]) of
           None \<Rightarrow> Inl FileNotFoundError
         | Some original \<Rightarrow>
             Inr (np_save
                    ((fs(directory @ [timestamp_filename] := None))
                       (directory @ [archive_filename] \<mapsto> original))
                    (directory @ [timestamp_filename]) new_timestamps))
      else \<comment> \<open>already archived: unlink the current file\<close>
        (case fs (directory @ [timestamp_filename]) of
           None \<Rightarrow> Inl FileNotFoundError
         | Some _ \<Rightarrow>
             Inr (np_save (fs(directory @ [timestamp_filename] := None))
                    (directory @ [timestamp_filename]) new_timestamps)))"

subsection \<open>Anchor points of a stream\<close>

definition sync_events :: "event list \<Rightarrow> stream \<Rightarrow> int \<Rightarrow> bool \<Rightarrow> event list" where
  \<comment> \<open>the selection of the sync events of a stream, then \<^verbatim>\<open>sort_values(by="sample_number")\<close>\<close>
  "sync_events events s local_sync_line flip_NIDAQ =
     sort_key ev_sample_number
       (if contains ''PXIe'' (stream_name s) \<and> flip_NIDAQ
        then filter (\<lambda>e. ev_stream_name e = stream_name s
                        \<and> ev_processor_id e = source_node_id s
                        \<and> ev_line e = local_sync_line
                        \<and> ev_state e = 0) events
        else filter (\<lambda>e. ev_stream_name e = stream_name s
                        \<and> ev_processor_id e = source_node_id s
                        \<and> ev_line e = local_sync_line
                        \<and> ev_state e = 1) events)"

definition event_times :: "event list \<Rightarrow> real \<Rightarrow> real list" where
  \<comment> \<open>\<^verbatim>\<open>events.sample_number.values / sample_rate\<close>\<close>
  "event_times evs rate = map (\<lambda>e. real_of_int (ev_sample_number e) / rate) evs"

definition main_stream_anchors ::
  "event list \<Rightarrow> stream \<Rightarrow> int \<Rightarrow> bool \<Rightarrow> py_error + (event list \<times> real list \<times> int list)" where
  \<comment> \<open>\<^verbatim>\<open>main_stream_events\<close>, \<^verbatim>\<open>main_stream_times\<close> (starting at 0) and
      \<^verbatim>\<open>main_stream_event_sample\<close>; the residual-chunk removal is switched off in the
      source (\<^verbatim>\<open>realign = False\<close>)\<close>
  "main_stream_anchors events main_stream local_sync_line flip_NIDAQ =
     (let main_stream_events = sync_events events main_stream local_sync_line flip_NIDAQ;
          main_stream_times = event_times main_stream_events (sample_rate main_stream)
      in case main_stream_times of
           [] \<Rightarrow> Inl IndexError
         | t0 # _ \<Rightarrow>
             Inr (main_stream_events,
                  map (\<lambda>t. t - t0) main_stream_times,
                  map ev_sample_number main_stream_events))"

subsection \<open>Cross-stream reconciliation\<close>

definition first_event_offset :: "event list \<Rightarrow> real \<Rightarrow> event list \<Rightarrow> real \<Rightarrow> float64" where
  \<comment> \<open>\<^verbatim>\<open>offset = np.abs(first_main_event_ts - first_curr_event_ts)\<close>, for non-empty lists: each
      time is the float64 quotient of the first sample number and the sample rate\<close>
  "first_event_offset main_stream_events main_stream_sample_rate events_for_stream sample_rate' =
     (let first_main_event_ts =
            f64_div (float_of_int (ev_sample_number (hd main_stream_events)))
              (Finite main_stream_sample_rate);
          first_curr_event_ts =
            f64_div (float_of_int (ev_sample_number (hd events_for_stream)))
              (Finite sample_rate')
      in f64_abs (f64_sub first_main_event_ts first_curr_event_ts))"

definition reconcile ::
  "event list \<Rightarrow> real list \<Rightarrow> real \<Rightarrow> event list \<Rightarrow> real
     \<Rightarrow> py_error + (event list \<times> real list \<times> event list)" where
  \<comment> \<open>the \<^verbatim>\<open>if len(main_stream_events) != len(events_for_stream)\<close> statement; the result is
      the new \<^verbatim>\<open>main_stream_events\<close>, \<^verbatim>\<open>main_stream_times\<close> and \<^verbatim>\<open>events_for_stream\<close>.
      Reading \<^verbatim>\<open>sample_number.values[0]\<close> of an empty selection raises.\<close>
  "reconcile main_stream_events main_stream_times main_stream_sample_rate
       events_for_stream sample_rate' =
     (if length main_stream_events \<noteq> length events_for_stream
      then
        if main_stream_events = [] \<or> events_for_stream = [] then Inl IndexError
        else
          (let offset = first_event_offset main_stream_events main_stream_sample_rate
                          events_for_stream sample_rate'
           in if f64_gt offset (float_literal 0.1)
              then
                if length main_stream_events > length events_for_stream
                then Inr (tl main_stream_events, tl main_stream_times, events_for_stream)
                else Inr (main_stream_events, main_stream_times, tl events_for_stream)
              else
                if length main_stream_events > length events_for_stream
                then Inr (butlast main_stream_events, butlast main_stream_times,
                          events_for_stream)
                else Inr (main_stream_events, main_stream_times,
                          butlast events_for_stream))
      else Inr (main_stream_events, main_stream_times, events_for_stream))"

subsection \<open>The alignment run: \<^verbatim>\<open>align_timestamps\<close>\<close>

text \<open>
  An exception that leaves \<^verbatim>\<open>align_timestamps\<close> is a value \<open>Inl (e, fs)\<close>, where \<open>fs\<close> are
  the files as they are when it is raised; the source has no handler. The remapper
  \<^verbatim>\<open>align_timestamps_to_anchor_points\<close> of \<^verbatim>\<open>harp.clock\<close> is a parameter.
\<close>

record config =
  original_timestamp_filename :: string
  flip_NIDAQ :: bool
  local_sync_line :: int
  main_stream_index :: int
  make_plots :: bool

type_synonym remapper = "real list \<Rightarrow> real list \<Rightarrow> real list \<Rightarrow> py_error + real list"

record loop_state =
  files_of :: files
  main_stream_times_of :: "real list"

definition and_then :: "'e + 'a \<Rightarrow> ('a \<Rightarrow> 'e + 'b) \<Rightarrow> 'e + 'b" where
  \<comment> \<open>sequencing: an exception ends the computation\<close>
  "and_then m f = (case m of Inl e \<Rightarrow> Inl e | Inr v \<Rightarrow> f v)"

definition raise_in :: "files \<Rightarrow> py_error + 'a \<Rightarrow> (py_error \<times> files) + 'a" where
  "raise_in fs m = (case m of Inl e \<Rightarrow> Inl (e, fs) | Inr v \<Rightarrow> Inr v)"

definition py_index :: "'a list \<Rightarrow> int \<Rightarrow> py_error + 'a" where
  \<comment> \<open>\<^verbatim>\<open>recording.continuous[i]\<close>: an index from \<open>-len\<close> to \<open>-1\<close> counts from the end\<close>
  "py_index xs i =
     (if 0 \<le> i \<and> i < int (length xs) then Inr (xs ! nat i)
      else if i < 0 \<and> - int (length xs) \<le> i then Inr (xs ! nat (int (length xs) + i))
      else Inl IndexError)"

definition np_load :: "files \<Rightarrow> path \<Rightarrow> py_error + real list" where
  "np_load fs file = (case fs file of None \<Rightarrow> Inl FileNotFoundError | Some arr \<Rightarrow> Inr arr)"

definition stream_folder :: "string list \<Rightarrow> string \<Rightarrow> py_error + string" where
  \<comment> \<open>\<^verbatim>\<open>[name for name in stream_folder_names if stream_name in name][0]\<close>\<close>
  "stream_folder stream_folder_names sname =
     (case filter (contains sname) stream_folder_names of
        [] \<Rightarrow> Inl IndexError
      | folder # _ \<Rightarrow> Inr folder)"

definition broadcastable :: "nat \<Rightarrow> nat \<Rightarrow> bool" where
  \<comment> \<open>whether two one-dimensional arrays of these lengths can be subtracted\<close>
  "broadcastable m n = (m = n \<or> m = 1 \<or> n = 1)"

definition update_event_timestamps ::
  "config \<Rightarrow> remapper \<Rightarrow> files \<Rightarrow> path \<Rightarrow> real list \<Rightarrow> real list
     \<Rightarrow> (py_error \<times> files) + files" where
  \<comment> \<open>load \<^verbatim>\<open>sample_numbers.npy\<close> of the events folder, remap, archive and replace\<close>
  "update_event_timestamps cfg remap' fs events_folder anchor_samples anchor_times =
     and_then (raise_in fs (np_load fs (events_folder @ [''sample_numbers.npy'']))) (\<lambda>sample_number_raw.
     and_then (raise_in fs (remap' sample_number_raw anchor_samples anchor_times)) (\<lambda>ts_events.
     raise_in fs
       (archive_and_replace_original_timestamps fs events_folder ts_events
          ''timestamps.npy'' (original_timestamp_filename cfg))))"

definition main_stream_setup ::
  "config \<Rightarrow> string list \<Rightarrow> remapper \<Rightarrow> files \<Rightarrow> recording
     \<Rightarrow> (py_error \<times> files) + (event list \<times> real \<times> loop_state)" where
  \<comment> \<open>the body of the loop over recordings up to \<^verbatim>\<open>main_stream_events_archive\<close>; the result
      is that archive, the sample rate of the main stream and the state of the stream loop\<close>
  "main_stream_setup cfg stream_folder_names remap' fs rec =
     and_then (raise_in fs (py_index (rec_continuous rec) (main_stream_index cfg))) (\<lambda>main_stream.
     and_then (raise_in fs (main_stream_anchors (rec_events rec) main_stream
                         (local_sync_line cfg) (flip_NIDAQ cfg)))
       (\<lambda>(main_stream_events, main_stream_times', main_stream_event_sample).
     and_then (raise_in fs (remap' (map real_of_int (sample_numbers main_stream))
                         (map real_of_int main_stream_event_sample) main_stream_times'))
       (\<lambda>ts_main.
     and_then (raise_in fs (stream_folder stream_folder_names (stream_name main_stream)))
       (\<lambda>stream_folder_name.
     and_then (raise_in fs (archive_and_replace_original_timestamps fs
                         (rec_directory rec @ [''continuous'', stream_folder_name]) ts_main
                         ''timestamps.npy'' (original_timestamp_filename cfg)))
       (\<lambda>fs1.
     and_then (update_event_timestamps cfg remap' fs1
            (rec_directory rec @ [''events'', stream_folder_name, ''TTL''])
            (map real_of_int main_stream_event_sample) main_stream_times')
       (\<lambda>fs2.
     Inr (main_stream_events, sample_rate main_stream,
          \<lparr>files_of = fs2, main_stream_times_of = main_stream_times'\<rparr>)))))))"

definition align_stream ::
  "config \<Rightarrow> string list \<Rightarrow> remapper \<Rightarrow> recording \<Rightarrow> event list \<Rightarrow> real
     \<Rightarrow> loop_state \<Rightarrow> stream \<Rightarrow> (py_error \<times> files) + loop_state" where
  \<comment> \<open>the body of \<^verbatim>\<open>if stream_idx != main_stream_index\<close>. \<^verbatim>\<open>main_stream_events\<close> is taken
      anew from the archive, \<^verbatim>\<open>main_stream_times\<close> is the variable as the previous stream
      left it. With plots on, the differences of the event timestamps are subtracted
      before the assertion.\<close>
  "align_stream cfg stream_folder_names remap' rec main_stream_events_archive
       main_stream_sample_rate st s =
     (let fs = files_of st;
          events_for_stream =
            sync_events (rec_events rec) s (local_sync_line cfg) (flip_NIDAQ cfg)
      in
      and_then (raise_in fs (reconcile main_stream_events_archive (main_stream_times_of st)
                          main_stream_sample_rate events_for_stream (sample_rate s)))
        (\<lambda>(main_stream_events, main_stream_times', events_for_stream).
      if make_plots cfg
         \<and> \<not> broadcastable (length events_for_stream - 1) (length main_stream_events - 1)
      then Inl (ValueError, fs)
      else if length main_stream_events \<noteq> length events_for_stream
      then Inl (AssertionError, fs)
      else
        (let local_stream_times = event_times events_for_stream (sample_rate s);
             event_samples = map (\<lambda>e. real_of_int (ev_sample_number e)) events_for_stream
         in
         and_then (raise_in fs (remap' local_stream_times local_stream_times main_stream_times'))
           (\<lambda>ts.
         and_then (raise_in fs (remap' (map real_of_int (sample_numbers s)) event_samples
                             main_stream_times'))
           (\<lambda>ts_stream.
         if make_plots cfg
            \<and> \<not> broadcastable (length ts - 1) (length main_stream_times' - 1)
         then Inl (ValueError, fs)
         else
         and_then (raise_in fs (stream_folder stream_folder_names (stream_name s)))
           (\<lambda>stream_folder_name.
         and_then (raise_in fs (archive_and_replace_original_timestamps fs
                             (rec_directory rec @ [''continuous'', stream_folder_name])
                             ts_stream ''timestamps.npy'' (original_timestamp_filename cfg)))
           (\<lambda>fs1.
         and_then (update_event_timestamps cfg remap' fs1
                (rec_directory rec @ [''events'', stream_folder_name, ''TTL''])
                event_samples main_stream_times')
           (\<lambda>fs2.
         Inr \<lparr>files_of = fs2, main_stream_times_of = main_stream_times'\<rparr>))))))))"

fun align_streams ::
  "config \<Rightarrow> string list \<Rightarrow> remapper \<Rightarrow> recording \<Rightarrow> event list \<Rightarrow> real
     \<Rightarrow> loop_state \<Rightarrow> (nat \<times> stream) list \<Rightarrow> (py_error \<times> files) + loop_state" where
  \<comment> \<open>\<^verbatim>\<open>for stream_idx, stream in enumerate(recording.continuous)\<close>\<close>
  "align_streams cfg names remap' rec arch rate st [] = Inr st"
| "align_streams cfg names remap' rec arch rate st ((stream_idx, s) # rest) =
     (if int stream_idx \<noteq> main_stream_index cfg
      then and_then (align_stream cfg names remap' rec arch rate st s)
             (\<lambda>st'. align_streams cfg names remap' rec arch rate st' rest)
      else align_streams cfg names remap' rec arch rate st rest)"

definition align_recording ::
  "config \<Rightarrow> string list \<Rightarrow> remapper \<Rightarrow> files \<Rightarrow> recording \<Rightarrow> (py_error \<times> files) + files" where
  "align_recording cfg names remap' fs rec =
     and_then (main_stream_setup cfg names remap' fs rec) (\<lambda>(arch, rate, st0).
     and_then (align_streams cfg names remap' rec arch rate st0
            (enumerate 0 (rec_continuous rec))) (\<lambda>st.
     Inr (files_of st)))"

fun align_recordings ::
  "config \<Rightarrow> string list \<Rightarrow> remapper \<Rightarrow> files \<Rightarrow> recording list
     \<Rightarrow> (py_error \<times> files) + files" where
  \<comment> \<open>the loops over record nodes and their recordings, in order\<close>
  "align_recordings cfg names remap' fs [] = Inr fs"
| "align_recordings cfg names remap' fs (rec # recs) =
     and_then (align_recording cfg names remap' fs rec)
       (\<lambda>fs'. align_recordings cfg names remap' fs' recs)"

definition align_timestamps ::
  "config \<Rightarrow> string list \<Rightarrow> remapper \<Rightarrow> files \<Rightarrow> recording list
     \<Rightarrow> (py_error \<times> files) + files" where
  \<comment> \<open>after the loops \<^verbatim>\<open>fig.savefig\<close> reads \<^verbatim>\<open>fig\<close>, which is bound inside the loop\<close>
  "align_timestamps cfg names remap' fs recs =
     and_then (align_recordings cfg names remap' fs recs) (\<lambda>fs'.
     if make_plots cfg \<and> recs = [] then Inl (UnboundLocalError, fs') else Inr fs')"

subsection \<open>Harp line search: \<^verbatim>\<open>search_harp_line\<close>\<close>

text \<open>
  The timestamp column of the event table is \<^verbatim>\<open>float64\<close>: the time of an event is read as
  the nearest float64 number, and all arithmetic on it is float64 arithmetic.
  \<^verbatim>\<open>scipy.stats.chisquare\<close> is a parameter: it maps the observed and the expected counts to
  the p-value, or raises. Of the figure only the creation of its grid of axes is kept,
  which fails without a column; the histograms drawn on the way, the PDF page and the
  image file are left out, and so is the list of stream folders, which is not used.
\<close>

type_synonym chisquare_test = "int list \<Rightarrow> float64 list \<Rightarrow> py_error + float64"

definition unique :: "'a list \<Rightarrow> 'a list" where
  \<comment> \<open>pandas \<^verbatim>\<open>Series.unique()\<close>: the distinct values in order of first appearance\<close>
  "unique xs = rev (remdups (rev xs))"

fun np_diff_f64 :: "float64 list \<Rightarrow> float64 list" where
  "np_diff_f64 (x # y # zs) = f64_sub y x # np_diff_f64 (y # zs)"
| "np_diff_f64 _ = []"

definition np_min :: "float64 list \<Rightarrow> float64" where
  \<comment> \<open>\<^verbatim>\<open>np.min\<close> of a non-empty array; NaN if the array holds one\<close>
  "np_min xs = (if NaN \<in> set xs then NaN
                else fold (\<lambda>x m. if f64_lt x m then x else m) xs (hd xs))"

definition np_max :: "float64 list \<Rightarrow> float64" where
  "np_max xs = (if NaN \<in> set xs then NaN
                else fold (\<lambda>x m. if f64_gt x m then x else m) xs (hd xs))"

definition np_arange :: "float64 \<Rightarrow> float64 \<Rightarrow> float64 \<Rightarrow> py_error + float64 list" where
  \<comment> \<open>\<^verbatim>\<open>np.arange(start, stop, step)\<close> on floats: the length is the ceiling of
      \<^verbatim>\<open>(stop - start) / step\<close>, the first two elements are \<^verbatim>\<open>start\<close> and \<^verbatim>\<open>start + step\<close>,
      and element \<open>i\<close> is \<^verbatim>\<open>start + i * delta\<close> with \<^verbatim>\<open>delta\<close> the difference of the first
      two. A length that is not a number raises \<^verbatim>\<open>ValueError\<close>, one outside the range of
      \<^verbatim>\<open>intp\<close> raises \<^verbatim>\<open>OverflowError\<close>, and an array of more than \<open>2\<^sup>6\<^sup>3\<close> bytes is refused
      with \<^verbatim>\<open>ValueError\<close>; memory is taken to suffice below that\<close>
  "np_arange start stop step =
     (case f64_div (f64_sub stop start) step of
        NaN \<Rightarrow> Inl ValueError
      | PInf \<Rightarrow> Inl OverflowError
      | NInf \<Rightarrow> Inl OverflowError
      | Finite v \<Rightarrow>
          if \<lceil>v\<rceil> < - (2 ^ 63) \<or> 2 ^ 63 < \<lceil>v\<rceil> then Inl OverflowError
          else if 2 ^ 60 \<le> \<lceil>v\<rceil> then Inl ValueError
          else
            (let next = f64_add start step;
                 delta = f64_sub next start
             in Inr (map (\<lambda>i. if i = 0 then start
                              else if i = 1 then next
                              else f64_add start (f64_mul (float_of_int (int i)) delta))
                       [0..<nat \<lceil>v\<rceil>])))"

definition searchsorted :: "bool \<Rightarrow> float64 list \<Rightarrow> float64 \<Rightarrow> int" where
  \<comment> \<open>\<^verbatim>\<open>np.sort(a).searchsorted(v, side)\<close> for \<open>v\<close> a number: how many elements of \<open>a\<close> are
      below \<open>v\<close> (side \<^verbatim>\<open>left\<close>), or below or equal to it (side \<^verbatim>\<open>right\<close>)\<close>
  "searchsorted right a v =
     int (length (filter (\<lambda>x. if right then f64_le x v else f64_lt x v) a))"

definition np_histogram :: "float64 list \<Rightarrow> float64 list \<Rightarrow> py_error + int list" where
  \<comment> \<open>\<^verbatim>\<open>np.histogram(a, bins=bins)\<close> for an array of bin edges: the edges must not decrease;
      the counts are the differences of the cumulative counts at the edges, so that
      every bin is half-open except the last one, which includes its right edge\<close>
  "np_histogram a bins =
     (if \<exists>j \<in> set [0..<length bins - 1]. f64_gt (bins ! j) (bins ! (j + 1))
      then Inl ValueError
      else (let cum_n = map (\<lambda>j. searchsorted (j + 1 = length bins) a (bins ! j))
                          [0..<length bins]
            in Inr (np_diff cum_n)))"

definition np_mean :: "int list \<Rightarrow> float64" where
  \<comment> \<open>\<^verbatim>\<open>np.mean\<close> of an integer array: the sum, added up in float64 (exactly, below
      \<open>2\<^sup>5\<^sup>3\<close>), over the length; NaN for an empty array\<close>
  "np_mean xs = f64_div (float_of_int (sum_list xs)) (float_of_int (int (length xs)))"

definition scan_line ::
  "chisquare_test \<Rightarrow> event list \<Rightarrow> stream \<Rightarrow> int \<Rightarrow> py_error + (float64 \<times> float64)" where
  \<comment> \<open>the body of the loop over \<^verbatim>\<open>lines_to_scan\<close>: the values stored in \<^verbatim>\<open>p_value\<close> and
      \<^verbatim>\<open>p_short\<close> for \<^verbatim>\<open>curr_line\<close>; \<^verbatim>\<open>np.min\<close> of an empty array raises\<close>
  "scan_line chisquare events nidaq curr_line =
     (let curr_events = filter (\<lambda>e. ev_stream_name e = stream_name nidaq
                                     \<and> ev_processor_id e = source_node_id nidaq
                                     \<and> ev_state e = 1 \<and> ev_line e = curr_line) events;
          bin_size = float_of_int 100;
          ts = map (\<lambda>e. round_to_float64 (ev_timestamp e)) curr_events
      in if ts = [] then Inl ValueError
         else
           and_then (np_arange (np_min ts) (np_max ts) bin_size) (\<lambda>bins.
           let event_intervals = np_diff_f64 ts;
               ts' = map (\<lambda>i. ts ! (i + 1))
                       (filter (\<lambda>i. f64_gt (event_intervals ! i) (float_literal 0.1))
                          [0..<length event_intervals])
           in and_then (np_histogram ts' bins) (\<lambda>ts_count.
              let expected_data = replicate (length ts_count) (np_mean ts_count)
              in and_then (chisquare ts_count expected_data) (\<lambda>p_value.
                 let p_short =
                       f64_div
                         (float_of_int
                            (int (length (filter (\<lambda>d. f64_lt d (float_literal 0.05))
                                            event_intervals))))
                         (float_of_int (int (length event_intervals)))
                 in Inr (p_value, p_short)))))"

fun scan_lines ::
  "chisquare_test \<Rightarrow> event list \<Rightarrow> stream \<Rightarrow> int list
     \<Rightarrow> py_error + (float64 \<times> float64) list" where
  \<comment> \<open>the loop over \<^verbatim>\<open>lines_to_scan\<close> filling \<^verbatim>\<open>p_value\<close> and \<^verbatim>\<open>p_short\<close>\<close>
  "scan_lines chisquare events nidaq [] = Inr []"
| "scan_lines chisquare events nidaq (curr_line # rest) =
     (case scan_line chisquare events nidaq curr_line of
        Inl e \<Rightarrow> Inl e
      | Inr p \<Rightarrow>
          and_then (scan_lines chisquare events nidaq rest) (\<lambda>ps. Inr (p # ps)))"

definition lines_to_scan_of :: "event list \<Rightarrow> stream \<Rightarrow> int list" where
  "lines_to_scan_of events nidaq =
     unique (map ev_line
       (filter (\<lambda>e. ev_stream_name e = stream_name nidaq
                    \<and> ev_processor_id e = source_node_id nidaq
                    \<and> ev_state e = 1) events))"

definition search_harp_line ::
  "chisquare_test \<Rightarrow> recording \<Rightarrow> py_error + (int list \<times> string \<times> int)" where
  \<comment> \<open>the result is \<^verbatim>\<open>(harp_line, nidaq_stream_name, nidaq_stream_source_node_id)\<close>; without a
      \<^verbatim>\<open>PXIe\<close> stream \<^verbatim>\<open>nidaq_stream_ind\<close> is read unbound, and
      \<^verbatim>\<open>plt.subplots(nrows=2, ncols=0)\<close> raises \<^verbatim>\<open>ValueError\<close>\<close>
  "search_harp_line chisquare rec =
     (case find (\<lambda>s. contains ''PXIe'' (stream_name s)) (rec_continuous rec) of
        None \<Rightarrow> Inl UnboundLocalError
      | Some nidaq \<Rightarrow>
          (let lines_to_scan = lines_to_scan_of (rec_events rec) nidaq;
               ncols = length lines_to_scan
           in if ncols = 0 then Inl ValueError
              else
                and_then (scan_lines chisquare (rec_events rec) nidaq lines_to_scan)
                  (\<lambda>ps.
                     Inr (map fst
                            (filter (\<lambda>(l, p_value, p_short).
                                       f64_gt p_short (float_literal 0.5)
                                       \<and> f64_gt p_value (float_literal 0.95))
                               (zip lines_to_scan ps)),
                          stream_name nidaq, source_node_id nidaq))))"








subsection \<open>Harp barcode segments: \<^verbatim>\<open>align_timestamps_harp\<close>\<close>

text \<open>
  \<^verbatim>\<open>get_barcode_edges\<close>, \<^verbatim>\<open>convert_barcode\<close> and \<^verbatim>\<open>decode_harp_clock\<close> of \<^verbatim>\<open>harp.clock\<close> are
  parameters; a call of \<^verbatim>\<open>convert_barcode\<close> either returns or raises.
\<close>

type_synonym barcode_edges_fn = "real list \<Rightarrow> real \<Rightarrow> (nat \<times> nat) list"
type_synonym convert_barcode_fn = "real list \<Rightarrow> int list \<Rightarrow> real \<Rightarrow> py_error + real"
type_synonym decode_harp_clock_fn = "real list \<Rightarrow> int list \<Rightarrow> py_error + (real list \<times> real list)"

definition py_slice :: "'a list \<Rightarrow> nat \<Rightarrow> nat \<Rightarrow> 'a list" where
  \<comment> \<open>\<^verbatim>\<open>xs[a:b]\<close> for non-negative bounds\<close>
  "py_slice xs a b = take (b - a) (drop a xs)"

fun start_times_of :: "real list \<Rightarrow> (nat \<times> nat) list \<Rightarrow> py_error + real list" where
  \<comment> \<open>\<^verbatim>\<open>[harp_timestamps_local[edges[0]] for edges in barcode_edges]\<close>\<close>
  "start_times_of ts [] = Inr []"
| "start_times_of ts (edges # rest) =
     (if fst edges < length ts
      then and_then (start_times_of ts rest) (\<lambda>starts. Inr (ts ! fst edges # starts))
      else Inl IndexError)"

fun valid_segments ::
  "convert_barcode_fn \<Rightarrow> real list \<Rightarrow> int list \<Rightarrow> (nat \<times> nat) list
     \<Rightarrow> int list list \<Rightarrow> real list list \<Rightarrow> py_error + (int list list \<times> real list list)" where
  \<comment> \<open>the loop over \<^verbatim>\<open>barcode_edges\<close> with its \<^verbatim>\<open>try ... except IndexError: pass\<close>\<close>
  "valid_segments convert_barcode ts states [] valid_states valid_timestamps =
     Inr (valid_states, valid_timestamps)"
| "valid_segments convert_barcode ts states (edges # rest) valid_states valid_timestamps =
     (case convert_barcode (py_slice ts (fst edges) (snd edges))
             (py_slice states (fst edges) (snd edges)) 1000 of
        Inr _ \<Rightarrow>
          valid_segments convert_barcode ts states rest
            (valid_states @ [py_slice states (fst edges) (snd edges)])
            (valid_timestamps @ [py_slice ts (fst edges) (snd edges)])
      | Inl e \<Rightarrow>
          if e = IndexError
          then valid_segments convert_barcode ts states rest valid_states valid_timestamps
          else Inl e)"

definition harp_anchor_points ::
  "barcode_edges_fn \<Rightarrow> convert_barcode_fn \<Rightarrow> decode_harp_clock_fn
     \<Rightarrow> real list \<Rightarrow> int list \<Rightarrow> py_error + (real list \<times> real list)" where
  \<comment> \<open>from \<^verbatim>\<open>get_barcode_edges\<close> to \<^verbatim>\<open>decode_harp_clock\<close>; \<^verbatim>\<open>np.concatenate\<close> of an empty
      list raises \<^verbatim>\<open>ValueError\<close>\<close>
  "harp_anchor_points get_barcode_edges convert_barcode decode_harp_clock
       harp_timestamps_local harp_states =
     (let barcode_edges = get_barcode_edges harp_timestamps_local 0.5
      in and_then (start_times_of harp_timestamps_local barcode_edges) (\<lambda>start_times.
         and_then (valid_segments convert_barcode harp_timestamps_local harp_states
                     barcode_edges [] [])
           (\<lambda>(valid_states, valid_timestamps).
         if valid_timestamps = [] then Inl ValueError
         else decode_harp_clock (concat valid_timestamps) (concat valid_states))))"

definition decodes :: "convert_barcode_fn \<Rightarrow> real list \<Rightarrow> int list \<Rightarrow> nat \<times> nat \<Rightarrow> bool" where
  \<comment> \<open>the segment between the two edges is converted without an exception\<close>
  "decodes convert_barcode ts states edges =
     (case convert_barcode (py_slice ts (fst edges) (snd edges))
             (py_slice states (fst edges) (snd edges)) 1000 of
        Inr _ \<Rightarrow> True | Inl _ \<Rightarrow> False)"

definition harp_recording_anchors ::
  "chisquare_test \<Rightarrow> barcode_edges_fn \<Rightarrow> convert_barcode_fn \<Rightarrow> decode_harp_clock_fn
     \<Rightarrow> int \<Rightarrow> recording \<Rightarrow> py_error + (real list \<times> real list) option" where
  \<comment> \<open>the body of the loop over recordings of \<^verbatim>\<open>align_timestamps_harp\<close> up to the anchors
      \<^verbatim>\<open>start_times, harp_times\<close>; \<open>None\<close> is the \<^verbatim>\<open>continue\<close> taken when no Harp line is
      found, \<open>selected\<close> the line typed in when several are found\<close>
  "harp_recording_anchors chisquare get_barcode_edges convert_barcode decode_harp_clock
       selected rec =
     and_then (search_harp_line chisquare rec) (\<lambda>(harp_lines, nidaq_stream_name, node_id).
     if length harp_lines = 0 then Inr None
     else
       (let harp_line = (if length harp_lines > 1 then selected else hd harp_lines);
            harp_events = filter (\<lambda>e. ev_stream_name e = nidaq_stream_name
                                      \<and> ev_processor_id e = node_id
                                      \<and> ev_line e = harp_line) (rec_events rec)
        in and_then
             (harp_anchor_points get_barcode_edges convert_barcode decode_harp_clock
                (map ev_timestamp harp_events) (map ev_state harp_events))
             (\<lambda>anchors. Inr (Some anchors))))"

subsection \<open>Piecewise-linear remapping\<close>

text \<open>
  Modelled from the spec: \<^verbatim>\<open>align_timestamps_to_anchor_points\<close> is imported from
  \<^verbatim>\<open>harp.clock\<close> and its body is not part of the sources at hand. The definition follows the
  specification of the remapper: between the bracketing anchors \<open>k\<close> and \<open>k + 1\<close> the time
  of index \<open>i\<close> is \<open>target\<^sub>k + (i - anchor\<^sub>k) / (anchor\<^sub>k\<^sub>+\<^sub>1 - anchor\<^sub>k) * (target\<^sub>k\<^sub>+\<^sub>1 - target\<^sub>k)\<close>,
  beyond the first and the last anchor the nearest pair of anchors is used, the result has
  one time for every index, and fewer than two anchors fail.
\<close>

definition interpolate :: "real \<times> real \<Rightarrow> real \<times> real \<Rightarrow> real \<Rightarrow> real" where
  "interpolate a b i = snd a + (i - fst a) / (fst b - fst a) * (snd b - snd a)"

fun remap_index :: "(real \<times> real) list \<Rightarrow> real \<Rightarrow> real" where
  "remap_index (a # b # c # anchors) i =
     (if i \<le> fst b then interpolate a b i else remap_index (b # c # anchors) i)"
| "remap_index [a, b] i = interpolate a b i"
| "remap_index _ i = i"

definition remap :: "real list \<Rightarrow> real list \<Rightarrow> real list \<Rightarrow> py_error + real list" where
  \<comment> \<open>\<^verbatim>\<open>remap(raw_indices, anchor_indices, anchor_times)\<close>\<close>
  "remap raw_indices anchor_indices anchor_times =
     (if length anchor_indices \<noteq> length anchor_times \<or> length anchor_indices < 2
      then Inl ValueError
      else Inr (map (remap_index (zip anchor_indices anchor_times)) raw_indices))"

subsection \<open>The selection of sync events, as one predicate\<close>

definition selects :: "stream \<Rightarrow> int \<Rightarrow> bool \<Rightarrow> event \<Rightarrow> bool" where
  \<comment> \<open>the rows the specification asks for: the sync line of the stream, with state 1, or
      state 0 when the polarity is inverted (a \<^verbatim>\<open>PXIe\<close> stream with \<^verbatim>\<open>flip_NIDAQ\<close> set)\<close>
  "selects s l flip e =
     (ev_stream_name e = stream_name s \<and> ev_processor_id e = source_node_id s
      \<and> ev_line e = l
      \<and> ev_state e = (if contains ''PXIe'' (stream_name s) \<and> flip then 0 else 1))"

subsection \<open>Example data\<close>

definition sync_event :: "string \<Rightarrow> int \<Rightarrow> int \<Rightarrow> int \<Rightarrow> event" where
  "sync_event sname st l n =
     \<lparr>ev_stream_name = sname, ev_processor_id = 100, ev_line = l, ev_state = st,
      ev_sample_number = n, ev_timestamp = real_of_int n / 30000\<rparr>"

definition probe_a :: stream where
  "probe_a = \<lparr>stream_name = ''ProbeA'', source_node_id = 100, sample_rate = 30000,
              sample_numbers = [0, 1, 2, 3]\<rparr>"

definition probe_a_events :: "event list" where
  \<comment> \<open>rising edges stored out of order, one falling edge, one edge of another line\<close>
  "probe_a_events =
     [sync_event ''ProbeA'' 1 1 60000, sync_event ''ProbeA'' 0 1 45000,
      sync_event ''ProbeA'' 1 1 30000, sync_event ''ProbeA'' 1 2 50000,
      sync_event ''ProbeA'' 1 1 90000]"

definition example_stream :: "string \<Rightarrow> stream" where
  "example_stream sname =
     \<lparr>stream_name = sname, source_node_id = 100, sample_rate = 30000,
      sample_numbers = [0, 30000, 60000]\<rparr>"

definition stream_files :: "path \<Rightarrow> string \<Rightarrow> (path \<times> real list) list" where
  "stream_files dir sname =
     [(dir @ [''continuous'', sname, ''timestamps.npy''], [100, 101, 102]),
      (dir @ [''events'', sname, ''TTL'', ''sample_numbers.npy''], [0, 30000, 60000]),
      (dir @ [''events'', sname, ''TTL'', ''timestamps.npy''], [100, 101, 102])]"

definition example_names :: "string list" where
  "example_names = [''ProbeA'', ''ProbeB'', ''ProbeC'']"

definition example_recording :: "string \<Rightarrow> recording" where
  "example_recording dir =
     \<lparr>rec_directory = [dir],
      rec_events = map (sync_event ''ProbeA'' 1 1) [0, 30000, 60000]
                   @ [sync_event ''ProbeB'' 1 1 0]
                   @ map (sync_event ''ProbeC'' 1 1) [0, 30000, 60000],
      rec_continuous = map example_stream example_names\<rparr>"

definition example_files :: files where
  "example_files =
     map_of (concat (map (stream_files [''recording1'']) example_names)
             @ concat (map (stream_files [''recording2'']) example_names))"

definition example_files_main_aligned :: files where
  \<comment> \<open>the files of the example once the main stream of recording 1 has been written\<close>
  "example_files_main_aligned =
     example_files
       ([''recording1'', ''continuous'', ''ProbeA'', ''original_timestamps.npy'']
          \<mapsto> [100, 101, 102],
        [''recording1'', ''continuous'', ''ProbeA'', ''timestamps.npy''] \<mapsto> [0, 1, 2],
        [''recording1'', ''events'', ''ProbeA'', ''TTL'', ''original_timestamps.npy'']
          \<mapsto> [100, 101, 102],
        [''recording1'', ''events'', ''ProbeA'', ''TTL'', ''timestamps.npy''] \<mapsto> [0, 1, 2])"

definition example_config :: config where
  "example_config =
     \<lparr>original_timestamp_filename = ''original_timestamps.npy'', flip_NIDAQ = False,
      local_sync_line = 1, main_stream_index = 0, make_plots = True\<rparr>"







definition example_convert_barcode :: convert_barcode_fn where
  \<comment> \<open>a stand-in for the decoder: a segment with fewer than two transitions is indexed out
      of range\<close>
  "example_convert_barcode ts states baud_rate =
     (if length ts < 2 then Inl IndexError else Inr (hd ts))"



section \<open>Results\<close>

subsection \<open>Floating-point numbers\<close>

lemma binade_numeral [simp]:
  "binade (numeral k) x =
     (if 2 \<le> x then binade (pred_numeral k) (x / 2) + 1
      else if x < 1 then binade (pred_numeral k) (2 * x) - 1
      else 0)"
  by (simp add: numeral_eq_Suc)

lemma binade_zero: "binade n 0 = - int n"
  by (induction n) simp_all

lemma round_to_float64_zero [simp]: "round_to_float64 0 = Finite 0"
  by (simp add: round_to_float64_def binade_zero round_half_even_def del: binade_numeral)

lemma float_literal_tenth:
  "float_literal 0.1 = Finite (3602879701896397 / 36028797018963968)"
  by (simp add: float_literal_def round_to_float64_def round_half_even_def)

subsection \<open>Three or more discontinuities\<close>

lemma clean_up_three_or_more_raises:
  assumes "length (discontinuities_of sample_number) \<ge> 3"
  shows "clean_up_sample_chunks sample_number = Inl IndexError"
proof -
  from assms have "discontinuities_of sample_number \<noteq> []" by auto
  with assms show ?thesis
    by (simp add: clean_up_sample_chunks_def Let_def first_chunk_check_def)
qed

text \<open>
  Claim C4. A counter with three or more discontinuities should give
  \<open>realign = False\<close> with an empty residual set. On the counter \<open>[0, 2, 4, 6, 7]\<close>, which has
  three discontinuities, the function sets \<open>realign = False\<close> and then raises
  \<open>IndexError\<close> at \<^verbatim>\<open>residual_ranges[0][0]\<close>: nothing is returned.
\<close>

theorem clean_up_three_discontinuities_raises:
  "length (discontinuities_of [0, 2, 4, 6, 7]) = 3
   \<and> clean_up_sample_chunks [0, 2, 4, 6, 7] = Inl IndexError"
  by (simp add: clean_up_sample_chunks_def discontinuities_of_def where_ne_1_def
      first_chunk_check_def i64_def upt_rec)

subsection \<open>One or two discontinuities\<close>

lemma i64_id: "- (2 ^ 63) \<le> x \<Longrightarrow> x < 2 ^ 63 \<Longrightarrow> i64 x = x"
  by (simp add: i64_def)

lemma i64_diff_small:
  assumes "\<bar>a - b\<bar> \<le> 3037000499"
  shows "i64 (a - b) = a - b"
  using assms by (intro i64_id) auto

lemma i64_prod_small:
  assumes "\<bar>a\<bar> \<le> 3037000499" "\<bar>b\<bar> \<le> 3037000499"
  shows "i64 (a * b) = a * b"
proof -
  have "\<bar>a * b\<bar> = \<bar>a\<bar> * \<bar>b\<bar>" by (simp add: abs_mult)
  also have "\<dots> \<le> 3037000499 * 3037000499"
    using assms by (intro mult_mono) auto
  finally have "\<bar>a * b\<bar> \<le> 9223372030926249001" by simp
  then show ?thesis by (intro i64_id) auto
qed

lemma length_np_diff [simp]: "length (np_diff xs) = length xs - 1"
  by (induction xs rule: np_diff.induct) auto

lemma nth_np_diff: "Suc i < length xs \<Longrightarrow> np_diff xs ! i = i64 (xs ! Suc i - xs ! i)"
proof (induction xs arbitrary: i rule: np_diff.induct)
  case (1 x y zs)
  then show ?case by (cases i) auto
qed auto

lemma discontinuities_of_eq:
  "discontinuities_of sn = filter (\<lambda>i. np_diff sn ! i \<noteq> 1) [0..<length sn - 1]"
  by (simp add: discontinuities_of_def where_ne_1_def)

lemma discontinuities_sorted: "sorted_wrt (<) (discontinuities_of sn)"
  unfolding discontinuities_of_eq by (intro sorted_wrt_filter) simp

lemma discontinuities_set:
  "set (discontinuities_of sn) = {i. i < length sn - 1 \<and> np_diff sn ! i \<noteq> 1}"
  unfolding discontinuities_of_eq by auto

lemma step_one:
  assumes "counter_span_small sn" "Suc i < length sn" "i \<notin> set (discontinuities_of sn)"
  shows "sn ! Suc i = sn ! i + 1"
proof -
  have "np_diff sn ! i = 1" using assms(2,3) by (auto simp: discontinuities_set)
  moreover have "sn ! i \<in> set sn" "sn ! Suc i \<in> set sn" using assms(2) by auto
  then have "i64 (sn ! Suc i - sn ! i) = sn ! Suc i - sn ! i"
    using assms(1) by (intro i64_diff_small) (auto simp: counter_span_small_def)
  ultimately show ?thesis using nth_np_diff[OF assms(2)] by simp
qed

lemma run_of_ones:
  assumes "counter_span_small sn" "b < length sn" "a \<le> b"
    and "\<forall>i. a \<le> i \<and> i < b \<longrightarrow> i \<notin> set (discontinuities_of sn)"
  shows "sn ! b = sn ! a + int (b - a)"
  using assms(2-)
proof (induction b)
  case 0
  then show ?case by simp
next
  case (Suc b)
  show ?case
  proof (cases "a = Suc b")
    case True
    then show ?thesis by simp
  next
    case False
    with Suc.prems have ab: "a \<le> b" by simp
    have "sn ! b = sn ! a + int (b - a)"
      using Suc.IH Suc.prems ab by auto
    moreover have "sn ! Suc b = sn ! b + 1"
      using step_one[OF assms(1), of b] Suc.prems ab by auto
    ultimately show ?thesis using ab by (simp add: Suc_diff_le)
  qed
qed

lemma discontinuity_lt: "d \<in> set (discontinuities_of sn) \<Longrightarrow> Suc d < length sn"
  by (auto simp: discontinuities_set)

lemma sample_ranges_one:
  assumes "discontinuities_of sn = [d]"
  shows "sample_ranges sn = [(sn ! 0, sn ! d), (sn ! Suc d, last sn)]"
  using assms by (simp add: sample_ranges_def sample_ranges_of_def chunk_starts_def upt_rec)

lemma sample_ranges_two:
  assumes "discontinuities_of sn = [d1, d2]"
  shows "sample_ranges sn = [(sn ! 0, sn ! d1), (sn ! Suc d1, sn ! d2), (sn ! Suc d2, last sn)]"
  using assms by (simp add: sample_ranges_def sample_ranges_of_def chunk_starts_def upt_rec)

lemma last_run:
  assumes "counter_span_small sn" "a < length sn"
    and "\<forall>i. a \<le> i \<and> Suc i < length sn \<longrightarrow> i \<notin> set (discontinuities_of sn)"
  shows "last sn = sn ! a + int (length sn - 1 - a)"
proof -
  have ne: "sn \<noteq> []" using assms(2) by auto
  have "sn ! (length sn - 1) = sn ! a + int (length sn - 1 - a)"
    using assms by (intro run_of_ones) auto
  then show ?thesis using ne by (simp add: last_conv_nth)
qed

text \<open>The facts about the chunks that the later proofs use.\<close>

lemma chunks_one_or_two:
  assumes r: "counter_span_small sn"
      and n: "length (discontinuities_of sn) = 1 \<or> length (discontinuities_of sn) = 2"
  shows "length (sample_ranges sn) \<ge> 2"
    and "\<forall>c \<in> set (sample_ranges sn). fst c \<in> set sn \<and> snd c \<in> set sn \<and> fst c \<le> snd c"
    and "fst (sample_ranges sn ! 0) = sn ! 0"
    and "\<exists>j. 0 < j \<and> j < length sn \<and> fst (sample_ranges sn ! 1) = sn ! j"
proof -
  from n consider (one) d where "discontinuities_of sn = [d]"
    | (two) d1 d2 where "discontinuities_of sn = [d1, d2]"
    by (cases "discontinuities_of sn" rule: remdups_adj.cases) auto
  then have "length (sample_ranges sn) \<ge> 2
    \<and> (\<forall>c \<in> set (sample_ranges sn). fst c \<in> set sn \<and> snd c \<in> set sn \<and> fst c \<le> snd c)
    \<and> fst (sample_ranges sn ! 0) = sn ! 0
    \<and> (\<exists>j. 0 < j \<and> j < length sn \<and> fst (sample_ranges sn ! 1) = sn ! j)"
  proof cases
    case one
    have d: "Suc d < length sn" using one discontinuity_lt[of d sn] by simp
    then have ne: "sn \<noteq> []" by auto
    have a: "sn ! d = sn ! 0 + int (d - 0)"
      using run_of_ones[OF r, of d 0] d one by auto
    have b: "last sn = sn ! Suc d + int (length sn - 1 - Suc d)"
      using last_run[OF r, of "Suc d"] d one by auto
    have le: "sn ! 0 \<le> sn ! d" "sn ! Suc d \<le> last sn" using a b by simp_all
    have mem: "sn ! 0 \<in> set sn" "sn ! d \<in> set sn" "sn ! Suc d \<in> set sn" "last sn \<in> set sn"
      using d ne by simp_all
    show ?thesis
      using d le mem by (auto simp: sample_ranges_one[OF one])
  next
    case two
    have "sorted_wrt (<) [d1, d2]" using discontinuities_sorted[of sn] two by simp
    then have lt: "d1 < d2" by simp
    have d2: "Suc d2 < length sn" using two discontinuity_lt[of d2 sn] by simp
    then have ne: "sn \<noteq> []" by auto
    have a: "sn ! d1 = sn ! 0 + int (d1 - 0)"
      using run_of_ones[OF r, of d1 0] d2 lt two by auto
    have b: "sn ! d2 = sn ! Suc d1 + int (d2 - Suc d1)"
      using run_of_ones[OF r, of d2 "Suc d1"] d2 lt two by auto
    have c: "last sn = sn ! Suc d2 + int (length sn - 1 - Suc d2)"
      using last_run[OF r, of "Suc d2"] d2 lt two by auto
    have le: "sn ! 0 \<le> sn ! d1" "sn ! Suc d1 \<le> sn ! d2" "sn ! Suc d2 \<le> last sn"
      using a b c by simp_all
    have mem: "sn ! 0 \<in> set sn" "sn ! d1 \<in> set sn" "sn ! Suc d1 \<in> set sn"
      "sn ! d2 \<in> set sn" "sn ! Suc d2 \<in> set sn" "last sn \<in> set sn"
      using d2 lt ne by simp_all
    have "Suc d1 < length sn" using d2 lt by simp
    then show ?thesis
      using le mem by (auto simp: sample_ranges_two[OF two])
  qed
  then show "length (sample_ranges sn) \<ge> 2"
    and "\<forall>c \<in> set (sample_ranges sn). fst c \<in> set sn \<and> snd c \<in> set sn \<and> fst c \<le> snd c"
    and "fst (sample_ranges sn ! 0) = sn ! 0"
    and "\<exists>j. 0 < j \<and> j < length sn \<and> fst (sample_ranges sn ! 1) = sn ! j"
    by blast+
qed

lemma np_argmax_less: "xs \<noteq> [] \<Longrightarrow> np_argmax xs < length xs"
  by (induction xs rule: np_argmax.induct) (auto simp: Let_def)

lemma major_ind_less:
  "sample_ranges sn \<noteq> [] \<Longrightarrow> major_ind sn < length (sample_ranges sn)"
  using np_argmax_less[of "map (\<lambda>r. i64 (snd r - fst r)) (sample_ranges sn)"]
  by (simp add: major_ind_def)

lemma set_np_delete: "set (np_delete xs i) \<subseteq> set xs"
  by (auto simp: np_delete_def dest: in_set_takeD in_set_dropD)

lemma hd_np_delete:
  assumes "length xs \<ge> 2"
  shows "np_delete xs i \<noteq> []" and "hd (np_delete xs i) = (if i = 0 then xs ! 1 else xs ! 0)"
proof -
  from assms obtain x y zs where xs: "xs = x # y # zs"
    by (cases xs rule: remdups_adj.cases) auto
  show "np_delete xs i \<noteq> []" by (cases i) (auto simp: np_delete_def xs)
  show "hd (np_delete xs i) = (if i = 0 then xs ! 1 else xs ! 0)"
    by (cases i) (auto simp: np_delete_def xs)
qed

lemma no_overlap_iff:
  assumes "mn \<le> mx"
    and "\<bar>fst c - mn\<bar> \<le> 3037000499" "\<bar>fst c - mx\<bar> \<le> 3037000499"
    and "\<bar>snd c - mn\<bar> \<le> 3037000499" "\<bar>snd c - mx\<bar> \<le> 3037000499"
  shows "no_overlap mn mx c
         \<longleftrightarrow> (fst c < mn \<or> mx < fst c) \<and> (snd c < mn \<or> mx < snd c)"
proof -
  have p: "i64 (i64 (x - mn) * i64 (x - mx)) > 0 \<longleftrightarrow> x < mn \<or> mx < x"
    if "\<bar>x - mn\<bar> \<le> 3037000499" "\<bar>x - mx\<bar> \<le> 3037000499" for x
  proof -
    have a: "i64 (x - mn) = x - mn" using that by (intro i64_diff_small) auto
    have b: "i64 (x - mx) = x - mx" using that by (intro i64_diff_small) auto
    have c: "i64 ((x - mn) * (x - mx)) = (x - mn) * (x - mx)"
      using that by (intro i64_prod_small) auto
    show ?thesis using assms(1) by (auto simp: a b c zero_less_mult_iff)
  qed
  show ?thesis using assms by (simp add: no_overlap_def p)
qed

lemma first_chunk_check_eq:
  assumes "residual \<noteq> []" "sn \<noteq> []"
  shows "first_chunk_check sn realign residual msgs
         = Inr (if fst (hd residual) \<noteq> hd sn
                then (False, residual, msgs @ [FirstChunkNotAtBeginning])
                else (realign, residual, msgs))"
  using assms by (cases residual; cases sn) (auto simp: first_chunk_check_def)

lemma major_range_facts:
  assumes r: "counter_span_small sn"
      and n: "length (discontinuities_of sn) = 1 \<or> length (discontinuities_of sn) = 2"
  shows "major_min sn \<in> set sn" "major_max sn \<in> set sn" "major_min sn \<le> major_max sn"
    and "\<forall>c \<in> set (residual_ranges_of sn). fst c \<in> set sn \<and> snd c \<in> set sn"
    and "residual_ranges_of sn \<noteq> []" and "sn \<noteq> []"
proof -
  note c = chunks_one_or_two[OF r n]
  have ne: "sample_ranges sn \<noteq> []" using c(1) by auto
  then have "sample_ranges sn ! major_ind sn \<in> set (sample_ranges sn)"
    using major_ind_less by simp
  then show "major_min sn \<in> set sn" "major_max sn \<in> set sn" "major_min sn \<le> major_max sn"
    using c(2) by (auto simp: major_min_def major_max_def)
  have "set (residual_ranges_of sn) \<subseteq> set (sample_ranges sn)"
    by (simp add: residual_ranges_of_def set_np_delete)
  then show "\<forall>c \<in> set (residual_ranges_of sn). fst c \<in> set sn \<and> snd c \<in> set sn"
    using c(2) by blast
  show "residual_ranges_of sn \<noteq> []"
    using hd_np_delete(1)[OF c(1)] by (simp add: residual_ranges_of_def)
  from c(4) show "sn \<noteq> []" by auto
qed

lemma residual_no_overlap_iff:
  assumes r: "counter_span_small sn"
      and n: "length (discontinuities_of sn) = 1 \<or> length (discontinuities_of sn) = 2"
      and c: "c \<in> set (residual_ranges_of sn)"
  shows "no_overlap (major_min sn) (major_max sn) c
         \<longleftrightarrow> (fst c < major_min sn \<or> major_max sn < fst c)
             \<and> (snd c < major_min sn \<or> major_max sn < snd c)"
proof -
  note f = major_range_facts[OF r n]
  have m: "fst c \<in> set sn" "snd c \<in> set sn" using f(4) c by auto
  show ?thesis
    using f(1-3) m r by (intro no_overlap_iff) (auto simp: counter_span_small_def)
qed

text \<open>
  Claim C5, as amended. For a counter with one or two discontinuities whose values lie
  within a span of 3037000499 (so that no \<^verbatim>\<open>int64\<close> difference or product wraps),
  \<open>clean_up_sample_chunks\<close> reports the residual chunks as removable when every residual
  range has both bounds strictly outside the closed main range, from the first to the last
  counter value of the main chunk, and reports that they cannot be removed when no
  residual range has: a bound equal to the first or last value of the main chunk counts as
  an overlap. In both cases it returns the ranges of the chunks other than the main one.
\<close>

theorem residual_removable_iff_outside:
  assumes r: "counter_span_small sn"
      and n: "length (discontinuities_of sn) = 1 \<or> length (discontinuities_of sn) = 2"
  shows "((\<forall>c \<in> set (residual_ranges_of sn).
             (fst c < major_min sn \<or> major_max sn < fst c)
             \<and> (snd c < major_min sn \<or> major_max sn < snd c))
          \<longrightarrow> (\<exists>realign msgs.
                 clean_up_sample_chunks sn
                 = Inr (realign, residual_ranges_of sn,
                        FoundDiscontinuities (length (discontinuities_of sn))
                          # CanBeRemoved # msgs)))
       \<and> ((\<forall>c \<in> set (residual_ranges_of sn).
              \<not> ((fst c < major_min sn \<or> major_max sn < fst c)
                 \<and> (snd c < major_min sn \<or> major_max sn < snd c)))
          \<longrightarrow> (\<exists>realign p msgs.
                 clean_up_sample_chunks sn
                 = Inr (realign, residual_ranges_of sn,
                        FoundDiscontinuities (length (discontinuities_of sn))
                          # CannotBeRemoved p # msgs)))"
proof (intro conjI impI)
  let ?res = "residual_ranges_of sn"
  let ?no = "map (no_overlap (major_min sn) (major_max sn)) ?res"
  have ne: "?res \<noteq> []" "sn \<noteq> []" using major_range_facts(5,6)[OF r n] by auto
  have d: "discontinuities_of sn \<noteq> []" "\<not> 3 \<le> length (discontinuities_of sn)" using n by auto
  {
    assume "\<forall>c \<in> set ?res.
             (fst c < major_min sn \<or> major_max sn < fst c)
             \<and> (snd c < major_min sn \<or> major_max sn < snd c)"
    then have al: "list_all id ?no"
      using residual_no_overlap_iff[OF r n] by (auto simp: list_all_iff)
    have "clean_up_sample_chunks sn
          = first_chunk_check sn True ?res
              ([FoundDiscontinuities (length (discontinuities_of sn))] @ [CanBeRemoved])"
      using d al by (simp add: clean_up_sample_chunks_def Let_def)
    then show "\<exists>realign msgs.
                 clean_up_sample_chunks sn
                 = Inr (realign, ?res,
                        FoundDiscontinuities (length (discontinuities_of sn))
                          # CanBeRemoved # msgs)"
      by (auto simp: first_chunk_check_eq[OF ne])
  }
  {
    assume "\<forall>c \<in> set ?res.
              \<not> ((fst c < major_min sn \<or> major_max sn < fst c)
                 \<and> (snd c < major_min sn \<or> major_max sn < snd c))"
    then have all: "\<forall>c \<in> set ?res. \<not> no_overlap (major_min sn) (major_max sn) c"
      using residual_no_overlap_iff[OF r n] by blast
    have ex: "\<not> list_ex id ?no" using all by (auto simp: list_ex_iff)
    have al: "\<not> list_all id ?no" using all ne(1) by (cases ?res) (auto simp: list_all_iff)
    have "clean_up_sample_chunks sn
          = first_chunk_check sn True ?res
              ([FoundDiscontinuities (length (discontinuities_of sn))]
               @ [CannotBeRemoved (overlap_perc (major_min sn) (major_max sn))])"
      using d ex al by (simp add: clean_up_sample_chunks_def Let_def)
    then show "\<exists>realign p msgs.
                 clean_up_sample_chunks sn
                 = Inr (realign, ?res,
                        FoundDiscontinuities (length (discontinuities_of sn))
                          # CannotBeRemoved p # msgs)"
      by (auto simp: first_chunk_check_eq[OF ne])
  }
qed

text \<open>
  The claim as stated fails on the counter \<open>[5, 0, 1, 2, 3, 4, 5]\<close>: the residual chunk is
  the single value 5, the main chunk spans 0 to 5, no bound of the residual lies strictly
  inside the main range, and yet the function reports that the chunk cannot be removed.
\<close>

theorem residual_on_boundary_not_removable:
  "length (discontinuities_of [5, 0, 1, 2, 3, 4, 5]) = 1
   \<and> residual_ranges_of [5, 0, 1, 2, 3, 4, 5] = [(5, 5)]
   \<and> major_min [5, 0, 1, 2, 3, 4, 5] = 0 \<and> major_max [5, 0, 1, 2, 3, 4, 5] = 5
   \<and> removable_as_specified 0 5 (5, 5)
   \<and> \<not> no_overlap 0 5 (5, 5)
   \<and> clean_up_sample_chunks [5, 0, 1, 2, 3, 4, 5]
       = Inr (True, [(5, 5)], [FoundDiscontinuities 1, CannotBeRemoved (Some 0)])"
  by code_simp

theorem residual_removable_iff_outside_witness:
  "(\<exists>realign msgs.
      clean_up_sample_chunks [0, 1, 2, 10, 11, 12, 13]
      = Inr (realign, [(0, 2)], FoundDiscontinuities 1 # CanBeRemoved # msgs))
   \<and> (\<exists>realign p msgs.
        clean_up_sample_chunks [5, 0, 1, 2, 3, 4, 5]
        = Inr (realign, [(5, 5)], FoundDiscontinuities 1 # CannotBeRemoved p # msgs))"
proof -
  have a1: "counter_span_small [0, 1, 2, 10, 11, 12, 13]" by code_simp
  have a2: "length (discontinuities_of [0, 1, 2, 10, 11, 12, 13]) = 1
      \<or> length (discontinuities_of [0, 1, 2, 10, 11, 12, 13]) = 2" by code_simp
  have a3: "\<forall>c \<in> set (residual_ranges_of [0, 1, 2, 10, 11, 12, 13]).
             (fst c < major_min [0, 1, 2, 10, 11, 12, 13]
                \<or> major_max [0, 1, 2, 10, 11, 12, 13] < fst c)
             \<and> (snd c < major_min [0, 1, 2, 10, 11, 12, 13]
                \<or> major_max [0, 1, 2, 10, 11, 12, 13] < snd c)" by code_simp
  have a4: "residual_ranges_of [0, 1, 2, 10, 11, 12, 13] = [(0, 2)]"
    "length (discontinuities_of [0, 1, 2, 10, 11, 12, 13]) = 1" by code_simp+
  have b1: "counter_span_small [5, 0, 1, 2, 3, 4, 5]" by code_simp
  have b2: "length (discontinuities_of [5, 0, 1, 2, 3, 4, 5]) = 1
      \<or> length (discontinuities_of [5, 0, 1, 2, 3, 4, 5]) = 2" by code_simp
  have b3: "\<forall>c \<in> set (residual_ranges_of [5, 0, 1, 2, 3, 4, 5]).
              \<not> ((fst c < major_min [5, 0, 1, 2, 3, 4, 5]
                    \<or> major_max [5, 0, 1, 2, 3, 4, 5] < fst c)
                 \<and> (snd c < major_min [5, 0, 1, 2, 3, 4, 5]
                    \<or> major_max [5, 0, 1, 2, 3, 4, 5] < snd c))" by code_simp
  have b4: "residual_ranges_of [5, 0, 1, 2, 3, 4, 5] = [(5, 5)]"
    "length (discontinuities_of [5, 0, 1, 2, 3, 4, 5]) = 1" by code_simp+
  from residual_removable_iff_outside [OF a1 a2] a3
  have a: "\<exists>realign msgs.
      clean_up_sample_chunks [0, 1, 2, 10, 11, 12, 13]
      = Inr (realign, [(0, 2)], FoundDiscontinuities 1 # CanBeRemoved # msgs)"
    unfolding a4 by blast
  from residual_removable_iff_outside [OF b1 b2] b3
  have b: "\<exists>realign p msgs.
        clean_up_sample_chunks [5, 0, 1, 2, 3, 4, 5]
        = Inr (realign, [(5, 5)], FoundDiscontinuities 1 # CannotBeRemoved p # msgs)"
    unfolding b4 by blast
  from a b show ?thesis by (rule conjI)
qed

lemma clean_up_mixed_residuals_raises:
  "clean_up_sample_chunks [100, 0, 1, 2, 3, 4, 5, 6, 7, 3] = Inl AttributeError"
  by code_simp




subsection \<open>Archival\<close>

lemma np_save_npy:
  "endswith fname ''.npy'' \<Longrightarrow> np_save fs (dir @ [fname]) arr = fs(dir @ [fname] \<mapsto> arr)"
  by (simp add: np_save_def)

lemma archive_and_replace_result:
  assumes "fs (directory @ [tf]) = Some original" "tf \<noteq> af" "endswith tf ''.npy''"
  shows "archive_and_replace_original_timestamps fs directory new tf af
         = Inr (if fs (directory @ [af]) = None
                then fs(directory @ [af] \<mapsto> original, directory @ [tf] \<mapsto> new)
                else fs(directory @ [tf] \<mapsto> new))"
proof -
  have "directory @ [tf] \<noteq> directory @ [af]" using assms(2) by simp
  then show ?thesis
    using assms(1,3)
    by (auto simp: archive_and_replace_original_timestamps_def np_save_def fun_upd_twist)
qed

text \<open>
  Claim C3. A call of \<open>archive_and_replace_original_timestamps\<close> on a directory that holds the
  current timestamps file (named differently from the archive, with the \<^verbatim>\<open>.npy\<close> suffix that
  every call in the source uses) moves the current file to the archive path when there is
  no archive yet and leaves an existing archive as it is; in both cases the current file
  then holds exactly \<open>new_timestamps\<close> and no other file changes. Hence two runs in a row
  leave a single archive with the values from before the first run, and the current file
  with the values of the second run.
\<close>

theorem archive_first_wins:
  assumes cur: "fs (directory @ [timestamp_filename]) = Some original"
      and ne: "timestamp_filename \<noteq> archive_filename"
      and npy: "endswith timestamp_filename ''.npy''"
  shows "archive_and_replace_original_timestamps fs directory new_timestamps
           timestamp_filename archive_filename
         = Inr (if fs (directory @ [archive_filename]) = None
                then fs(directory @ [archive_filename] \<mapsto> original,
                        directory @ [timestamp_filename] \<mapsto> new_timestamps)
                else fs(directory @ [timestamp_filename] \<mapsto> new_timestamps))
       \<and> (fs (directory @ [archive_filename]) = None \<longrightarrow>
            (case archive_and_replace_original_timestamps fs directory new_timestamps
                    timestamp_filename archive_filename of
               Inl _ \<Rightarrow> False
             | Inr fs1 \<Rightarrow>
                 archive_and_replace_original_timestamps fs1 directory newer_timestamps
                   timestamp_filename archive_filename
                 = Inr (fs(directory @ [archive_filename] \<mapsto> original,
                           directory @ [timestamp_filename] \<mapsto> newer_timestamps))))"
proof -
  let ?cur = "directory @ [timestamp_filename]"
  let ?arch = "directory @ [archive_filename]"
  have d: "?cur \<noteq> ?arch" using ne by simp
  have first: "archive_and_replace_original_timestamps fs directory new_timestamps
           timestamp_filename archive_filename
         = Inr (if fs ?arch = None
                then fs(?arch \<mapsto> original, ?cur \<mapsto> new_timestamps)
                else fs(?cur \<mapsto> new_timestamps))"
    using cur d npy
    by (auto simp: archive_and_replace_original_timestamps_def np_save_npy fun_upd_twist)
  have second: "archive_and_replace_original_timestamps
                  (fs(?arch \<mapsto> original, ?cur \<mapsto> new_timestamps)) directory newer_timestamps
                   timestamp_filename archive_filename
                 = Inr (fs(?arch \<mapsto> original, ?cur \<mapsto> newer_timestamps))"
    using d npy
    by (auto simp: archive_and_replace_original_timestamps_def np_save_npy)
  show ?thesis using first second by simp
qed

theorem archive_first_wins_witness:
  "[[''continuous'', ''timestamps.npy''] \<mapsto> [1, 2, 3 :: real]]
       ([''continuous''] @ [''timestamps.npy'']) = Some [1, 2, 3]
   \<and> ''timestamps.npy'' \<noteq> ''original_timestamps.npy''
   \<and> endswith ''timestamps.npy'' ''.npy''
   \<and> archive_and_replace_original_timestamps
        [[''continuous'', ''timestamps.npy''] \<mapsto> [1, 2, 3]] [''continuous''] [0, 1, 2]
        ''timestamps.npy'' ''original_timestamps.npy''
      = Inr [[''continuous'', ''timestamps.npy''] \<mapsto> [1, 2, 3],
             [''continuous'', ''original_timestamps.npy''] \<mapsto> [1, 2, 3],
             [''continuous'', ''timestamps.npy''] \<mapsto> [0, 1, 2]]"
  using archive_first_wins
    [where fs = "[[''continuous'', ''timestamps.npy''] \<mapsto> [1, 2, 3]]"
       and directory = "[''continuous'']" and timestamp_filename = "''timestamps.npy''"
       and archive_filename = "''original_timestamps.npy''" and original = "[1, 2, 3]"
       and new_timestamps = "[0, 1, 2]" and newer_timestamps = "[5, 6, 7]"]
  by (simp add: endswith_def)

subsection \<open>Trimming one event\<close>



lemma offset_rounding_example:
  "first_event_offset [sync_event ''ProbeA'' 1 1 12000] 30000
     [sync_event ''ProbeB'' 1 1 9000] 30000
   = Finite (1801439850948199 / 18014398509481984)
   \<and> (3602879701896397 / 36028797018963968 :: real) < 1801439850948199 / 18014398509481984
   \<and> \<bar>12000 / 30000 - 9000 / 30000\<bar> = (1 / 10 :: real)"
  by (simp add: first_event_offset_def sync_event_def float_of_int_def round_to_float64_def
      round_half_even_def f64_sub_def)

subsection \<open>The reference anchor set\<close>

lemma sync_events_alt:
  "sync_events events s l flip = sort_key ev_sample_number (filter (selects s l flip) events)"
  by (auto simp: sync_events_def selects_def[abs_def])

text \<open>
  Claim C6. The reference anchor set is built from exactly the events of the reference
  stream on the sync line with state 1 (state 0 when the polarity is inverted), ordered by
  sample index; every anchor time is \<open>sample_index / sample_rate\<close> shifted by the first
  anchor's time, so the first anchor time is 0. (With no such event the source raises
  \<open>IndexError\<close>; times are real numbers here, the source computes them in floating point.)
\<close>

theorem reference_anchor_set:
  assumes rate: "sample_rate main_stream > 0"
      and ne: "filter (selects main_stream l flip) events \<noteq> []"
  shows "\<exists>evs times.
           main_stream_anchors events main_stream l flip
             = Inr (evs, times, map ev_sample_number evs)
         \<and> mset evs = mset (filter (selects main_stream l flip) events)
         \<and> sorted (map ev_sample_number evs)
         \<and> times = map (\<lambda>e. real_of_int (ev_sample_number e) / sample_rate main_stream
                          - real_of_int (ev_sample_number (hd evs)) / sample_rate main_stream) evs
         \<and> hd times = 0"
proof -
  let ?evs = "sync_events events main_stream l flip"
  let ?times = "map (\<lambda>e. real_of_int (ev_sample_number e) / sample_rate main_stream
                 - real_of_int (ev_sample_number (hd ?evs)) / sample_rate main_stream) ?evs"
  have m: "mset ?evs = mset (filter (selects main_stream l flip) events)"
    by (simp add: sync_events_alt)
  have s: "sorted (map ev_sample_number ?evs)"
    by (simp add: sync_events_alt)
  from m ne have "?evs \<noteq> []" by (metis mset_zero_iff)
  then obtain e0 rest where e: "?evs = e0 # rest" by (cases ?evs) auto
  have r: "main_stream_anchors events main_stream l flip
           = Inr (?evs, ?times, map ev_sample_number ?evs)"
    by (simp add: main_stream_anchors_def Let_def event_times_def e)
  have h: "hd ?times = 0" by (simp add: e)
  from r m s h show ?thesis by blast
qed

theorem reference_anchor_set_witness:
  "sample_rate probe_a > 0
   \<and> filter (selects probe_a 1 False) probe_a_events \<noteq> []
   \<and> (\<exists>evs times.
         main_stream_anchors probe_a_events probe_a 1 False
           = Inr (evs, times, map ev_sample_number evs)
       \<and> mset evs = mset (filter (selects probe_a 1 False) probe_a_events)
       \<and> sorted (map ev_sample_number evs)
       \<and> times = map (\<lambda>e. real_of_int (ev_sample_number e) / sample_rate probe_a
                        - real_of_int (ev_sample_number (hd evs)) / sample_rate probe_a) evs
       \<and> hd times = 0)"
proof -
  have h1: "sample_rate probe_a > 0" by (simp add: probe_a_def)
  have h2: "filter (selects probe_a 1 False) probe_a_events \<noteq> []"
    by (simp add: selects_def probe_a_def probe_a_events_def sync_event_def)
  from h1 h2 reference_anchor_set [OF h1 h2] show ?thesis by blast
qed

lemma reference_anchor_set_example:
  "main_stream_anchors probe_a_events probe_a 1 False
   = Inr ([sync_event ''ProbeA'' 1 1 30000, sync_event ''ProbeA'' 1 1 60000,
           sync_event ''ProbeA'' 1 1 90000],
          [0, 1, 2], [30000, 60000, 90000])"
  by (simp add: main_stream_anchors_def sync_events_def event_times_def probe_a_def
      probe_a_events_def sync_event_def)

subsection \<open>Piecewise-linear remapping\<close>

lemma remap_index_below:
  fixes anchors :: "(real \<times> real) list"
  assumes "length anchors \<ge> 2" "i \<le> fst (anchors ! 1)"
  shows "remap_index anchors i = interpolate (anchors ! 0) (anchors ! 1) i"
  using assms by (cases "(anchors, i)" rule: remap_index.cases) auto

lemma strict_head_less:
  fixes b :: "real \<times> real"
  assumes "sorted_wrt (<) (map fst (b # rest))" "j < length rest"
  shows "fst b < fst (rest ! j)"
  using assms by (auto simp: nth_mem)

lemma remap_index_bracket:
  assumes "sorted_wrt (<) (map fst anchors)" "Suc k < length anchors"
    "fst (anchors ! k) \<le> i" "i \<le> fst (anchors ! Suc k)"
  shows "remap_index anchors i = interpolate (anchors ! k) (anchors ! Suc k) i"
  using assms
proof (induction anchors i arbitrary: k rule: remap_index.induct)
  case (1 a b c anchors i)
  show ?case
  proof (cases k)
    case 0
    with 1 show ?thesis by simp
  next
    case (Suc k')
    show ?thesis
    proof (cases "i \<le> fst b")
      case True
      have k0: "k' = 0"
      proof (rule ccontr)
        assume "k' \<noteq> 0"
        then obtain k'' where k'': "k' = Suc k''" by (cases k') auto
        have "sorted_wrt (<) (map fst (b # c # anchors))" using "1.prems"(1) by simp
        moreover have "k'' < length (c # anchors)" using "1.prems"(2) Suc k'' by simp
        ultimately have "fst b < fst ((c # anchors) ! k'')" by (rule strict_head_less)
        then have "fst b < fst ((a # b # c # anchors) ! k)" using Suc k'' by simp
        with True "1.prems"(3) show False by simp
      qed
      with Suc True "1.prems"(3) have ieq: "i = fst b" by simp
      have "fst a < fst b" "fst b < fst c" using "1.prems"(1) by simp_all
      then have "interpolate a b (fst b) = interpolate b c (fst b)"
        by (simp add: interpolate_def)
      then show ?thesis using True ieq k0 Suc by simp
    next
      case False
      have "remap_index (b # c # anchors) i
            = interpolate ((b # c # anchors) ! k') ((b # c # anchors) ! Suc k') i"
        using "1.IH"[OF False, of k'] "1.prems" Suc by simp
      with False Suc show ?thesis by simp
    qed
  qed
qed simp_all

lemma remap_index_above:
  assumes "sorted_wrt (<) (map fst anchors)" "length anchors \<ge> 2"
    "fst (last anchors) \<le> i"
  shows "remap_index anchors i
         = interpolate (anchors ! (length anchors - 2)) (anchors ! (length anchors - 1)) i"
  using assms
proof (induction anchors i rule: remap_index.induct)
  case (1 a b c anchors i)
  have "fst b < fst (last (a # b # c # anchors))"
  proof -
    have "last (a # b # c # anchors) = last (c # anchors)" by simp
    moreover have "last (c # anchors) \<in> set (c # anchors)" using last_in_set by blast
    ultimately show ?thesis using "1.prems"(1) by auto
  qed
  with "1.prems"(3) have nb: "\<not> i \<le> fst b" by simp
  have "remap_index (b # c # anchors) i
         = interpolate ((b # c # anchors) ! (length (b # c # anchors) - 2))
             ((b # c # anchors) ! (length (b # c # anchors) - 1)) i"
    using "1.IH"[OF nb] "1.prems" by simp
  with nb show ?case by simp
qed simp_all

text \<open>
  Claim C8. For an anchor set with at least two anchors and strictly increasing anchor
  indices, the remapped time of a raw index \<open>i\<close> between the anchors \<open>k\<close> and \<open>k + 1\<close> is
  \<open>target\<^sub>k + (i - anchor\<^sub>k) / (anchor\<^sub>k\<^sub>+\<^sub>1 - anchor\<^sub>k) * (target\<^sub>k\<^sub>+\<^sub>1 - target\<^sub>k)\<close>; an index below the
  first anchor is extrapolated with the first pair of anchors, one above the last anchor
  with the last pair; there is one time for every raw index. For the anchors
  \<open>(0, 0.0), (10, 1.0), (20, 2.0)\<close> index 5 is mapped to 0.5 and index 15 to 1.5 (exactly,
  over the reals).
\<close>

theorem remap_piecewise_linear:
  assumes "sorted_wrt (<) anchor_indices" "length anchor_indices \<ge> 2"
      and "length anchor_times = length anchor_indices"
  shows "\<exists>times. remap raw_indices anchor_indices anchor_times = Inr times
         \<and> length times = length raw_indices
         \<and> (\<forall>j < length raw_indices. \<forall>k. Suc k < length anchor_indices
               \<and> (anchor_indices ! k \<le> raw_indices ! j \<and> raw_indices ! j \<le> anchor_indices ! Suc k
                  \<or> k = 0 \<and> raw_indices ! j \<le> anchor_indices ! 0
                  \<or> Suc k = length anchor_indices - 1 \<and> anchor_indices ! Suc k \<le> raw_indices ! j)
               \<longrightarrow> times ! j = anchor_times ! k
                      + (raw_indices ! j - anchor_indices ! k)
                        / (anchor_indices ! Suc k - anchor_indices ! k)
                        * (anchor_times ! Suc k - anchor_times ! k))
         \<and> remap [5] [0, 10, 20] [0, 1, 2] = Inr [0.5]
         \<and> remap [15] [0, 10, 20] [0, 1, 2] = Inr [1.5]"
proof -
  let ?a = "zip anchor_indices anchor_times"
  have len: "length ?a = length anchor_indices" using assms(3) by simp
  have fst_a: "map fst ?a = anchor_indices" using assms(3) by simp
  have srt: "sorted_wrt (<) (map fst ?a)" using assms(1) fst_a by simp
  have r: "remap raw_indices anchor_indices anchor_times = Inr (map (remap_index ?a) raw_indices)"
    using assms by (simp add: remap_def)
  have main: "remap_index ?a i = anchor_times ! k + (i - anchor_indices ! k)
                        / (anchor_indices ! Suc k - anchor_indices ! k)
                        * (anchor_times ! Suc k - anchor_times ! k)"
    if k: "Suc k < length anchor_indices"
      and c: "anchor_indices ! k \<le> i \<and> i \<le> anchor_indices ! Suc k
                  \<or> k = 0 \<and> i \<le> anchor_indices ! 0
                  \<or> Suc k = length anchor_indices - 1 \<and> anchor_indices ! Suc k \<le> i" for i k
  proof -
    have nk: "?a ! k = (anchor_indices ! k, anchor_times ! k)"
      "?a ! Suc k = (anchor_indices ! Suc k, anchor_times ! Suc k)"
      using k assms(3) by simp_all
    have "remap_index ?a i = interpolate (?a ! k) (?a ! Suc k) i"
    proof -
      consider (mid) "anchor_indices ! k \<le> i \<and> i \<le> anchor_indices ! Suc k"
        | (lo) "k = 0 \<and> i \<le> anchor_indices ! 0"
        | (hi) "Suc k = length anchor_indices - 1 \<and> anchor_indices ! Suc k \<le> i"
        using c by blast
      then show ?thesis
      proof cases
        case mid
        show ?thesis
          by (rule remap_index_bracket[OF srt]) (use k len mid nk in auto)
      next
        case lo
        have "anchor_indices ! 0 < anchor_indices ! 1"
          using assms(1,2) by (simp add: sorted_wrt_nth_less)
        with lo have "i \<le> fst (?a ! 1)" using nk by simp
        then show ?thesis using remap_index_below[of ?a i] len assms(2) lo by simp
      next
        case hi
        then have sk0: "Suc k = length anchor_indices - 1"
          and ki: "anchor_indices ! Suc k \<le> i" by blast+
        have sk: "Suc k = length ?a - 1" using sk0 len by (simp only:)
        have kk: "k = length ?a - 2" using sk by simp
        have "last ?a = ?a ! Suc k"
          using sk len assms(2) by (subst last_conv_nth) auto
        then have "fst (last ?a) \<le> i" using nk(2) ki by simp
        moreover have "length ?a \<ge> 2" using len assms(2) by simp
        ultimately have "remap_index ?a i
           = interpolate (?a ! (length ?a - 2)) (?a ! (length ?a - 1)) i"
          using remap_index_above[OF srt] by blast
        then show ?thesis using sk kk by metis
      qed
    qed
    then show ?thesis using nk by (simp add: interpolate_def)
  qed
  have ex1: "remap [5] [0, 10, 20] [0, 1, 2] = Inr [0.5]"
    by (simp add: remap_def interpolate_def)
  have ex2: "remap [15] [0, 10, 20] [0, 1, 2] = Inr [1.5]"
    by (simp add: remap_def interpolate_def)
  show ?thesis
    using r main ex1 ex2 by (intro exI[of _ "map (remap_index ?a) raw_indices"]) simp
qed

theorem remap_piecewise_linear_witness:
  "sorted_wrt (<) [0, 10, 20 :: real] \<and> length [0, 10, 20 :: real] \<ge> 2
   \<and> length [0, 1, 2 :: real] = length [0, 10, 20 :: real]
   \<and> (\<exists>times. remap [5, 15, -5, 25] [0, 10, 20] [0, 1, 2] = Inr times
         \<and> length times = length [5, 15, -5, 25 :: real])"
proof -
  have h1: "sorted_wrt (<) [0, 10, 20 :: real]" by simp
  have h2: "length [0, 10, 20 :: real] \<ge> 2" by simp
  have h3: "length [0, 1, 2 :: real] = length [0, 10, 20 :: real]" by simp
  have "\<exists>times. remap [5, 15, -5, 25] [0, 10, 20] [0, 1, 2] = Inr times
         \<and> length times = length [5, 15, -5, 25 :: real]"
    using remap_piecewise_linear [OF h1 h2 h3, of "[5, 15, -5, 25]"]
    apply -
    apply (elim exE conjE)
    apply (intro exI conjI)
     apply assumption+
    done
  with h1 h2 h3 show ?thesis by blast
qed

lemma remap_example:
  "remap [5, 15, -5, 25] [0, 10, 20] [0, 1, 2] = Inr [0.5, 1.5, -0.5, 2.5]"
  by (simp add: remap_def interpolate_def)


subsection \<open>A count mismatch after the trimming\<close>

lemma and_then_Inl [simp]: "and_then (Inl e) f = Inl e"
  by (simp add: and_then_def)

lemma and_then_Inr [simp]: "and_then (Inr v) f = f v"
  by (simp add: and_then_def)

lemma raise_in_simps [simp]:
  "raise_in fs (Inl e) = Inl (e, fs)" "raise_in fs (Inr v) = Inr v"
  by (simp_all add: raise_in_def)

lemma align_stream_mismatch:
  assumes "reconcile arch (main_stream_times_of st) rate
             (sync_events (rec_events rec) s (local_sync_line cfg) (flip_NIDAQ cfg))
             (sample_rate s) = Inr (m', t', c')"
      and "length m' \<noteq> length c'"
  shows "align_stream cfg names remap' rec arch rate st s
         = Inl (if make_plots cfg \<and> \<not> broadcastable (length c' - 1) (length m' - 1)
                then ValueError else AssertionError, files_of st)"
  using assms by (simp add: align_stream_def Let_def)

lemma align_streams_append:
  "align_streams cfg names remap' rec arch rate st (pre @ rest)
   = and_then (align_streams cfg names remap' rec arch rate st pre)
       (\<lambda>st'. align_streams cfg names remap' rec arch rate st' rest)"
proof (induction pre arbitrary: st)
  case Nil
  then show ?case by simp
next
  case (Cons p pre)
  obtain i s where p: "p = (i, s)" by (cases p)
  show ?case
  proof (cases "align_stream cfg names remap' rec arch rate st s")
    case (Inl e)
    then show ?thesis using p Cons by simp
  next
    case (Inr st')
    then show ?thesis using p Cons by simp
  qed
qed

text \<open>
  Claim C1, as amended. When, for a stream other than the reference stream, the number of
  sync events still differs from that of the reference stream after the single trimming
  correction, the run raises at that stream, before any remapping of it: \<open>AssertionError\<close>
  from the assertion on the two lengths, or \<open>ValueError\<close> from the subtraction for the plot
  just before it when plots are on and the lengths cannot be broadcast. No file of the
  stream is written. The exception is not handled, so \<open>align_timestamps\<close> ends with it: no
  later stream of the recording and no later recording is processed.
\<close>

theorem mismatch_after_trim_aborts_run:
  assumes ms: "main_stream_setup cfg names remap' fs rec = Inr (arch, rate, st0)"
      and en: "enumerate 0 (rec_continuous rec) = pre @ (idx, s) # post"
      and ps: "align_streams cfg names remap' rec arch rate st0 pre = Inr st"
      and nonref: "int idx \<noteq> main_stream_index cfg"
      and trim: "reconcile arch (main_stream_times_of st) rate
             (sync_events (rec_events rec) s (local_sync_line cfg) (flip_NIDAQ cfg))
             (sample_rate s) = Inr (m', t', c')"
      and mismatch: "length m' \<noteq> length c'"
  shows "\<exists>e. (e = AssertionError \<or> e = ValueError)
             \<and> align_stream cfg names remap' rec arch rate st s = Inl (e, files_of st)
             \<and> align_recording cfg names remap' fs rec = Inl (e, files_of st)
             \<and> (\<forall>later. align_timestamps cfg names remap' fs (rec # later)
                          = Inl (e, files_of st))"
proof -
  let ?e = "if make_plots cfg \<and> \<not> broadcastable (length c' - 1) (length m' - 1)
            then ValueError else AssertionError"
  have a: "align_stream cfg names remap' rec arch rate st s = Inl (?e, files_of st)"
    using align_stream_mismatch[OF trim mismatch] .
  have b: "align_streams cfg names remap' rec arch rate st0 (pre @ (idx, s) # post)
           = Inl (?e, files_of st)"
    using ps nonref a by (simp add: align_streams_append)
  have c: "align_recording cfg names remap' fs rec = Inl (?e, files_of st)"
    using ms en b by (simp add: align_recording_def)
  have d: "align_timestamps cfg names remap' fs (rec # later) = Inl (?e, files_of st)" for later
    using c by (simp add: align_timestamps_def)
  show ?thesis using a c d by (intro exI[of _ ?e]) auto
qed

lemma example_stream_simps:
  "stream_name (example_stream n) = n" "source_node_id (example_stream n) = 100"
  "sample_rate (example_stream n) = 30000"
  "sample_numbers (example_stream n) = [0, 30000, 60000]"
  by (simp_all add: example_stream_def)

lemma ex_sync_A:
  "sync_events (rec_events (example_recording d)) (example_stream ''ProbeA'') 1 False
   = map (sync_event ''ProbeA'' 1 1) [0, 30000, 60000]"
  by (simp add: sync_events_def example_recording_def example_stream_def sync_event_def)

lemma ex_sync_B:
  "sync_events (rec_events (example_recording d)) (example_stream ''ProbeB'') 1 False
   = [sync_event ''ProbeB'' 1 1 0]"
  by (simp add: sync_events_def example_recording_def example_stream_def sync_event_def)

lemma ex_anchors:
  "main_stream_anchors (rec_events (example_recording d)) (example_stream ''ProbeA'') 1 False
   = Inr (map (sync_event ''ProbeA'' 1 1) [0, 30000, 60000], [0, 1, 2], [0, 30000, 60000])"
  by (simp add: main_stream_anchors_def ex_sync_A event_times_def sync_event_def example_stream_simps)

lemma ex_remap: "remap [0, 30000, 60000] [0, 30000, 60000] [0, 1, 2] = Inr [0, 1, 2]"
  by (simp add: remap_def interpolate_def)

lemma ex_folder: "stream_folder example_names ''ProbeA'' = Inr ''ProbeA''"
  by (simp add: stream_folder_def example_names_def)

lemma ex_files_A:
  "example_files [''recording1'', ''continuous'', ''ProbeA'', ''timestamps.npy''] = Some [100, 101, 102]"
  "example_files [''recording1'', ''continuous'', ''ProbeA'', ''original_timestamps.npy''] = None"
  "example_files [''recording1'', ''events'', ''ProbeA'', ''TTL'', ''timestamps.npy''] = Some [100, 101, 102]"
  "example_files [''recording1'', ''events'', ''ProbeA'', ''TTL'', ''sample_numbers.npy''] = Some [0, 30000, 60000]"
  "example_files [''recording1'', ''events'', ''ProbeA'', ''TTL'', ''original_timestamps.npy''] = None"
  "example_files [''recording1'', ''continuous'', ''ProbeC'', ''timestamps.npy''] = Some [100, 101, 102]"
  "example_files [''recording1'', ''continuous'', ''ProbeC'', ''original_timestamps.npy''] = None"
  "example_files [''recording2'', ''continuous'', ''ProbeA'', ''timestamps.npy''] = Some [100, 101, 102]"
  "example_files [''recording2'', ''continuous'', ''ProbeA'', ''original_timestamps.npy''] = None"
  by (simp_all add: example_files_def example_names_def stream_files_def)

lemma example_config_simps:
  "original_timestamp_filename example_config = ''original_timestamps.npy''"
  "flip_NIDAQ example_config = False" "local_sync_line example_config = 1"
  "main_stream_index example_config = 0" "make_plots example_config = True"
  by (simp_all add: example_config_def)

lemma example_recording_simps:
  "rec_directory (example_recording d) = [d]"
  "rec_continuous (example_recording d)
   = [example_stream ''ProbeA'', example_stream ''ProbeB'', example_stream ''ProbeC'']"
  by (simp_all add: example_recording_def example_names_def)

lemma ex_setup:
  "main_stream_setup example_config example_names remap example_files
     (example_recording ''recording1'')
   = Inr (map (sync_event ''ProbeA'' 1 1) [0, 30000, 60000], 30000,
          \<lparr>files_of = example_files_main_aligned, main_stream_times_of = [0, 1, 2]\<rparr>)"
proof -
  let ?fs1 = "example_files
       ([''recording1'', ''continuous'', ''ProbeA'', ''original_timestamps.npy'']
          \<mapsto> [100, 101, 102],
        [''recording1'', ''continuous'', ''ProbeA'', ''timestamps.npy''] \<mapsto> [0, 1, 2])"
  have a1: "archive_and_replace_original_timestamps example_files
              ([''recording1''] @ [''continuous'', ''ProbeA'']) [0, 1, 2]
              ''timestamps.npy'' ''original_timestamps.npy'' = Inr ?fs1"
    using archive_and_replace_result
      [of example_files "[''recording1''] @ [''continuous'', ''ProbeA'']" "''timestamps.npy''"
          "[100, 101, 102]" "''original_timestamps.npy''" "[0, 1, 2]"]
    by (simp add: ex_files_A endswith_def)
  have l: "np_load ?fs1 ([''recording1''] @ [''events'', ''ProbeA'', ''TTL'']
              @ [''sample_numbers.npy'']) = Inr [0, 30000, 60000]"
    by (simp add: np_load_def ex_files_A)
  have a2: "archive_and_replace_original_timestamps ?fs1
              ([''recording1''] @ [''events'', ''ProbeA'', ''TTL'']) [0, 1, 2]
              ''timestamps.npy'' ''original_timestamps.npy'' = Inr example_files_main_aligned"
    using archive_and_replace_result
      [of ?fs1 "[''recording1''] @ [''events'', ''ProbeA'', ''TTL'']" "''timestamps.npy''"
          "[100, 101, 102]" "''original_timestamps.npy''" "[0, 1, 2]"]
    by (simp add: ex_files_A endswith_def example_files_main_aligned_def)
  have u: "update_event_timestamps example_config remap ?fs1
             ([''recording1''] @ [''events'', ''ProbeA'', ''TTL''])
             [0, 30000, 60000] [0, 1, 2] = Inr example_files_main_aligned"
    using l a2 by (simp add: update_event_timestamps_def ex_remap example_config_simps)
  have i: "py_index (rec_continuous (example_recording ''recording1'')) 0
           = Inr (example_stream ''ProbeA'')"
    by (simp add: py_index_def example_recording_simps)
  show ?thesis
    using i a1 u
    by (simp add: main_stream_setup_def example_config_simps ex_anchors ex_remap ex_folder
        example_stream_simps example_recording_simps)
qed

lemma ex_reconcile_B:
  "reconcile [sync_event ''ProbeA'' 1 1 0, sync_event ''ProbeA'' 1 1 30000,
              sync_event ''ProbeA'' 1 1 60000] [0, 1, 2] 30000
     [sync_event ''ProbeB'' 1 1 0] 30000
   = Inr ([sync_event ''ProbeA'' 1 1 0, sync_event ''ProbeA'' 1 1 30000], [0, 1],
          [sync_event ''ProbeB'' 1 1 0])"
  by (simp add: reconcile_def first_event_offset_def sync_event_def float_of_int_def
      float_literal_tenth f64_sub_def f64_gt_def)

lemma ex_align_stream_B:
  "align_stream example_config example_names remap (example_recording ''recording1'')
     [sync_event ''ProbeA'' 1 1 0, sync_event ''ProbeA'' 1 1 30000,
      sync_event ''ProbeA'' 1 1 60000] 30000
     \<lparr>files_of = example_files_main_aligned, main_stream_times_of = [0, 1, 2]\<rparr>
     (example_stream ''ProbeB'')
   = Inl (AssertionError, example_files_main_aligned)"
proof -
  have r: "reconcile [sync_event ''ProbeA'' 1 1 0, sync_event ''ProbeA'' 1 1 30000,
              sync_event ''ProbeA'' 1 1 60000]
             (main_stream_times_of
                \<lparr>files_of = example_files_main_aligned, main_stream_times_of = [0, 1, 2]\<rparr>)
             30000
             (sync_events (rec_events (example_recording ''recording1''))
                (example_stream ''ProbeB'') (local_sync_line example_config)
                (flip_NIDAQ example_config))
             (sample_rate (example_stream ''ProbeB''))
           = Inr ([sync_event ''ProbeA'' 1 1 0, sync_event ''ProbeA'' 1 1 30000], [0, 1],
                  [sync_event ''ProbeB'' 1 1 0])"
    by (simp add: example_config_simps example_stream_simps ex_sync_B ex_reconcile_B)
  have n: "length [sync_event ''ProbeA'' 1 1 0, sync_event ''ProbeA'' 1 1 30000]
           \<noteq> length [sync_event ''ProbeB'' 1 1 0]" by simp
  show ?thesis
    using align_stream_mismatch [OF r n, of example_names remap]
    by (simp add: example_config_simps broadcastable_def)
qed

text \<open>
  The claim as stated fails on a run over two recordings with the streams ProbeA (the
  reference, three sync events), ProbeB (one sync event) and ProbeC (three sync events):
  after the trimming the counts are 2 and 1, the run ends with \<open>AssertionError\<close> at ProbeB,
  and neither ProbeC nor the second recording is processed (their timestamps are not
  archived and not replaced).
\<close>

theorem mismatch_aborts_whole_run:
  "align_timestamps example_config example_names remap example_files
     [example_recording ''recording1'', example_recording ''recording2'']
   = Inl (AssertionError, example_files_main_aligned)
   \<and> example_files_main_aligned [''recording1'', ''continuous'', ''ProbeC'', ''timestamps.npy'']
       = Some [100, 101, 102]
   \<and> example_files_main_aligned
        [''recording1'', ''continuous'', ''ProbeC'', ''original_timestamps.npy''] = None
   \<and> example_files_main_aligned
        [''recording2'', ''continuous'', ''ProbeA'', ''original_timestamps.npy''] = None"
proof -
  have "align_recording example_config example_names remap example_files
          (example_recording ''recording1'')
        = Inl (AssertionError, example_files_main_aligned)"
    using ex_setup ex_align_stream_B
    by (simp add: align_recording_def example_recording_simps example_config_simps)
  then have "align_timestamps example_config example_names remap example_files
     [example_recording ''recording1'', example_recording ''recording2'']
   = Inl (AssertionError, example_files_main_aligned)"
    by (simp add: align_timestamps_def)
  then show ?thesis
    by (simp add: example_files_main_aligned_def ex_files_A)
qed

theorem mismatch_after_trim_aborts_run_witness:
  "main_stream_setup example_config example_names remap example_files
     (example_recording ''recording1'')
   = Inr (map (sync_event ''ProbeA'' 1 1) [0, 30000, 60000], 30000,
          \<lparr>files_of = example_files_main_aligned, main_stream_times_of = [0, 1, 2]\<rparr>)
   \<and> enumerate 0 (rec_continuous (example_recording ''recording1''))
       = [(0, example_stream ''ProbeA'')] @ (1, example_stream ''ProbeB'')
         # [(2, example_stream ''ProbeC'')]
   \<and> int 1 \<noteq> main_stream_index example_config
   \<and> length (map (sync_event ''ProbeA'' 1 1) [0, 30000])
       \<noteq> length [sync_event ''ProbeB'' 1 1 0]
   \<and> (\<exists>e. (e = AssertionError \<or> e = ValueError)
          \<and> align_recording example_config example_names remap example_files
               (example_recording ''recording1'')
              = Inl (e, example_files_main_aligned))"
proof -
  let ?A = "map (sync_event ''ProbeA'' 1 1) [0, 30000, 60000]"
  let ?st = "\<lparr>files_of = example_files_main_aligned, main_stream_times_of = [0, 1, 2]\<rparr>"
  let ?rec = "example_recording ''recording1''"
  have h1: "main_stream_setup example_config example_names remap example_files ?rec
            = Inr (?A, 30000, ?st)" by (rule ex_setup)
  have h2: "enumerate 0 (rec_continuous ?rec)
       = [(0, example_stream ''ProbeA'')] @ (1, example_stream ''ProbeB'')
         # [(2, example_stream ''ProbeC'')]"
    by (simp add: example_recording_simps)
  have h3: "align_streams example_config example_names remap ?rec ?A 30000 ?st
              [(0, example_stream ''ProbeA'')] = Inr ?st"
    by (simp add: example_config_simps)
  have h4: "int 1 \<noteq> main_stream_index example_config" by (simp add: example_config_simps)
  have h5: "reconcile ?A (main_stream_times_of ?st) 30000
             (sync_events (rec_events ?rec) (example_stream ''ProbeB'')
                (local_sync_line example_config) (flip_NIDAQ example_config))
             (sample_rate (example_stream ''ProbeB''))
            = Inr (map (sync_event ''ProbeA'' 1 1) [0, 30000], [0, 1],
                   [sync_event ''ProbeB'' 1 1 0])"
    using ex_reconcile_B
    by (simp add: example_config_simps example_stream_simps ex_sync_B)
  have h6: "length (map (sync_event ''ProbeA'' 1 1) [0, 30000])
       \<noteq> length [sync_event ''ProbeB'' 1 1 0]" by simp
  from mismatch_after_trim_aborts_run [OF h1 h2 h3 h4 h5 h6]
  have "\<exists>e. (e = AssertionError \<or> e = ValueError)
          \<and> align_recording example_config example_names remap example_files ?rec
              = Inl (e, example_files_main_aligned)"
    by auto
  with h1 h2 h4 h6 show ?thesis by blast
qed

subsection \<open>Harp line search\<close>

lemma set_unique [simp]: "set (unique xs) = set xs"
  by (simp add: unique_def)

lemma distinct_unique [simp]: "distinct (unique xs)"
  by (simp add: unique_def)









lemma scan_lines_raises:
  assumes "\<forall>l \<in> set pre. \<exists>p. scan_line chisquare events nidaq l = Inr p"
      and "scan_line chisquare events nidaq l = Inl e"
  shows "scan_lines chisquare events nidaq (pre @ l # rest) = Inl e"
  using assms by (induction pre) (auto simp: and_then_def)




























subsection \<open>Harp barcode segments\<close>

lemma start_times_of_ok:
  assumes "\<forall>edges \<in> set es. fst edges < length ts"
  shows "start_times_of ts es = Inr (map (\<lambda>edges. ts ! fst edges) es)"
  using assms by (induction es) simp_all

lemma valid_segments_filter:
  assumes "\<forall>edges \<in> set es. \<forall>e.
             convert_barcode (py_slice ts (fst edges) (snd edges))
               (py_slice states (fst edges) (snd edges)) 1000 = Inl e \<longrightarrow> e = IndexError"
  shows "valid_segments convert_barcode ts states es valid_states valid_timestamps
         = Inr (valid_states
                  @ map (\<lambda>edges. py_slice states (fst edges) (snd edges))
                      (filter (decodes convert_barcode ts states) es),
                valid_timestamps
                  @ map (\<lambda>edges. py_slice ts (fst edges) (snd edges))
                      (filter (decodes convert_barcode ts states) es))"
  using assms
proof (induction es arbitrary: valid_states valid_timestamps)
  case Nil
  then show ?case by simp
next
  case (Cons edges es)
  show ?case
  proof (cases "convert_barcode (py_slice ts (fst edges) (snd edges))
                  (py_slice states (fst edges) (snd edges)) 1000")
    case (Inl e)
    then have "e = IndexError" using Cons.prems by simp
    then show ?thesis using Inl Cons by (simp add: decodes_def)
  next
    case (Inr v)
    then show ?thesis using Cons by (simp add: decodes_def)
  qed
qed


lemma harp_anchor_points_discard:
  assumes idx: "\<forall>edges \<in> set (get_barcode_edges ts 0.5). fst edges < length ts"
      and only: "\<forall>edges \<in> set (get_barcode_edges ts 0.5). \<forall>e.
             convert_barcode (py_slice ts (fst edges) (snd edges))
               (py_slice states (fst edges) (snd edges)) 1000 = Inl e \<longrightarrow> e = IndexError"
  shows "harp_anchor_points get_barcode_edges convert_barcode decode_harp_clock ts states
         = (if filter (decodes convert_barcode ts states) (get_barcode_edges ts 0.5) = []
            then Inl ValueError
            else decode_harp_clock
                   (concat (map (\<lambda>edges. py_slice ts (fst edges) (snd edges))
                              (filter (decodes convert_barcode ts states)
                                 (get_barcode_edges ts 0.5))))
                   (concat (map (\<lambda>edges. py_slice states (fst edges) (snd edges))
                              (filter (decodes convert_barcode ts states)
                                 (get_barcode_edges ts 0.5)))))"
proof -
  have v: "valid_segments convert_barcode ts states (get_barcode_edges ts 0.5) [] []
           = Inr ([] @ map (\<lambda>edges. py_slice states (fst edges) (snd edges))
                         (filter (decodes convert_barcode ts states)
                            (get_barcode_edges ts 0.5)),
                  [] @ map (\<lambda>edges. py_slice ts (fst edges) (snd edges))
                         (filter (decodes convert_barcode ts states)
                            (get_barcode_edges ts 0.5)))"
    using only
    by (rule valid_segments_filter
          [where convert_barcode = convert_barcode and ts = ts and states = states])
  show ?thesis
    using start_times_of_ok[OF idx] v
    by (simp add: harp_anchor_points_def Let_def)
qed





lemma malformed_segment_example:
  "\<not> decodes example_convert_barcode [0, 0.001, 1, 2, 2.001] [1, 0, 1, 1, 0] (2, 3)"
  by (simp add: decodes_def example_convert_barcode_def py_slice_def)

lemma no_segment_decodes:
  assumes "\<forall>edges \<in> set (get_barcode_edges ts 0.5). fst edges < length ts"
      and "\<forall>edges \<in> set (get_barcode_edges ts 0.5).
             convert_barcode (py_slice ts (fst edges) (snd edges))
               (py_slice states (fst edges) (snd edges)) 1000 = Inl IndexError"
  shows "harp_anchor_points get_barcode_edges convert_barcode decode_harp_clock ts states
         = Inl ValueError"
proof -
  have o: "\<forall>edges \<in> set (get_barcode_edges ts 0.5). \<forall>e.
             convert_barcode (py_slice ts (fst edges) (snd edges))
               (py_slice states (fst edges) (snd edges)) 1000 = Inl e \<longrightarrow> e = IndexError"
    using assms(2) by auto
  have n: "filter (decodes convert_barcode ts states) (get_barcode_edges ts 0.5) = []"
    using assms(2) by (auto simp: filter_empty_conv decodes_def)
  show ?thesis
    using assms(1) o n
      harp_anchor_points_discard
        [where get_barcode_edges = get_barcode_edges and convert_barcode = convert_barcode
           and decode_harp_clock = decode_harp_clock and ts = ts and states = states]
    by simp
qed

lemma harp_recording_fails_without_segments:
  assumes "search_harp_line chisquare rec = Inr ([l], nidaq_stream_name, node_id)"
      and "harp_anchor_points get_barcode_edges convert_barcode decode_harp_clock
             (map ev_timestamp
                (filter (\<lambda>e. ev_stream_name e = nidaq_stream_name
                             \<and> ev_processor_id e = node_id \<and> ev_line e = l) (rec_events rec)))
             (map ev_state
                (filter (\<lambda>e. ev_stream_name e = nidaq_stream_name
                             \<and> ev_processor_id e = node_id \<and> ev_line e = l) (rec_events rec)))
           = Inl ValueError"
  shows "harp_recording_anchors chisquare get_barcode_edges convert_barcode decode_harp_clock
           selected rec = Inl ValueError"
  using assms by (simp add: harp_recording_anchors_def Let_def)

end
